theory Spec2Isabelle
  imports Complex_Main "HOL-Library.Sublist"
begin


section \<open>Python string operations used by the scripts\<close>

text \<open>
  Strings are lists of characters.  The operations below follow the behaviour of the
  Python \<^verbatim>\<open>str\<close> methods the scripts call: a match is searched from the left,
  and after a match the scan resumes behind it (matches never overlap).  The counter
  \<open>skip\<close> is the number of characters of the current match still to be passed over.
\<close>

fun replace_from :: "string \<Rightarrow> string \<Rightarrow> nat \<Rightarrow> string \<Rightarrow> string" where
  "replace_from old new skip [] = []"
| "replace_from old new (Suc k) (c # cs) = replace_from old new k cs"
| "replace_from old new 0 (c # cs) =
     (if prefix old (c # cs) then new @ replace_from old new (length old - 1) cs
      else c # replace_from old new 0 cs)"

definition str_replace :: "string \<Rightarrow> string \<Rightarrow> string \<Rightarrow> string" where
  \<comment> \<open>\<^verbatim>\<open>s.replace(old, new)\<close>; an empty \<open>old\<close> matches between all characters.\<close>
  "str_replace s old new =
     (if old = [] then new @ concat (map (\<lambda>c. c # new) s) else replace_from old new 0 s)"

fun find_from :: "string \<Rightarrow> nat \<Rightarrow> string \<Rightarrow> int" where
  "find_from sub i [] = (if sub = [] then int i else - 1)"
| "find_from sub i (c # cs) =
     (if prefix sub (c # cs) then int i else find_from sub (Suc i) cs)"

definition str_find :: "string \<Rightarrow> string \<Rightarrow> int" where
  \<comment> \<open>\<^verbatim>\<open>s.find(sub)\<close>: position of the first occurrence, \<open>-1\<close> when there is none.\<close>
  "str_find s sub = find_from sub 0 s"

fun count_from :: "string \<Rightarrow> nat \<Rightarrow> string \<Rightarrow> nat" where
  "count_from sub skip [] = 0"
| "count_from sub (Suc k) (c # cs) = count_from sub k cs"
| "count_from sub 0 (c # cs) =
     (if prefix sub (c # cs) then Suc (count_from sub (length sub - 1) cs)
      else count_from sub 0 cs)"

definition str_count :: "string \<Rightarrow> string \<Rightarrow> nat" where
  \<comment> \<open>\<^verbatim>\<open>s.count(sub)\<close>: number of non-overlapping occurrences.\<close>
  "str_count s sub = (if sub = [] then Suc (length s) else count_from sub 0 s)"

fun split_from :: "string \<Rightarrow> nat \<Rightarrow> string \<Rightarrow> string \<Rightarrow> string list" where
  "split_from sep skip cur [] = [rev cur]"
| "split_from sep (Suc k) cur (c # cs) = split_from sep k cur cs"
| "split_from sep 0 cur (c # cs) =
     (if prefix sep (c # cs) then rev cur # split_from sep (length sep - 1) [] cs
      else split_from sep 0 (c # cur) cs)"

definition str_split :: "string \<Rightarrow> string \<Rightarrow> string list" where
  \<comment> \<open>\<^verbatim>\<open>s.split(sep)\<close> for a non-empty separator (the only use in the scripts).\<close>
  "str_split s sep = split_from sep 0 [] s"

fun str_join :: "string \<Rightarrow> string list \<Rightarrow> string" where
  "str_join sep [] = []"
| "str_join sep [x] = x"
| "str_join sep (x # y # ys) = x @ sep @ str_join sep (y # ys)"

definition is_space :: "char \<Rightarrow> bool" where
  \<comment> \<open>the characters \<^verbatim>\<open>str.strip()\<close> removes, among the first 256 code points\<close>
  "is_space c \<longleftrightarrow>
     c \<in> set [CHR 0x09, CHR 0x0A, CHR 0x0B, CHR 0x0C, CHR 0x0D, CHR 0x1C, CHR 0x1D,
               CHR 0x1E, CHR 0x1F, CHR 0x20, CHR 0x85, CHR 0xA0]"

definition str_strip :: "string \<Rightarrow> string" where
  "str_strip s = rev (dropWhile is_space (rev (dropWhile is_space s)))"

definition slice_index :: "nat \<Rightarrow> int \<Rightarrow> nat" where
  \<comment> \<open>a slice bound in a sequence of length \<open>n\<close>: negative bounds count from the end\<close>
  "slice_index n i = (if i < 0 then nat (max 0 (int n + i)) else min n (nat i))"

definition slice_from :: "int \<Rightarrow> 'a list \<Rightarrow> 'a list" where
  \<comment> \<open>\<^verbatim>\<open>xs[a:]\<close>\<close>
  "slice_from a xs = drop (slice_index (length xs) a) xs"

definition slice_to :: "int \<Rightarrow> 'a list \<Rightarrow> 'a list" where
  \<comment> \<open>\<^verbatim>\<open>xs[:b]\<close>\<close>
  "slice_to b xs = take (slice_index (length xs) b) xs"

definition slice :: "int \<Rightarrow> int \<Rightarrow> 'a list \<Rightarrow> 'a list" where
  \<comment> \<open>\<^verbatim>\<open>xs[a:b]\<close>\<close>
  "slice a b xs =
     (let lo = slice_index (length xs) a; hi = slice_index (length xs) b
      in take (hi - lo) (drop lo xs))"

section \<open>The posting script: \<^verbatim>\<open>post_on_instagram.py\<close>\<close>

subsection \<open>Location tag\<close>

text \<open>
  \<^verbatim>\<open>v1_generate_prompts\<close> stores the location of a row as
  \<^verbatim>\<open>prompt[0] + "," + location\<close>; the posting script computes the tag as
  \<^verbatim>\<open>row["location"].replace(f",{main_location}", "").strip()\<close>.
\<close>

definition stored_location :: "string \<Rightarrow> string \<Rightarrow> string" where
  "stored_location place main_location = place @ '','' @ main_location"

definition location_tag :: "string \<Rightarrow> string \<Rightarrow> string" where
  "location_tag main_location loc = str_strip (str_replace loc ('','' @ main_location) [])"

subsection \<open>Caption assembly\<close>

definition raw_caption_literal :: string where
  \<comment> \<open>the triple-quoted literal of the script, line breaks and indentation included\<close>
  "raw_caption_literal =
     '' #digitalmodel #fashionista #fashiongram #styleblogger #fashionblogger #fashionmodel #modelling''
     @ [CHR 0x0A] @
     ''                #modelswanted #modelsearch #modelphotography #modelpose #modelstatus #modelsofinstagram #modelife ''
     @ [CHR 0x0A] @
     ''                #digitalinfluencer #VirtualModel #DigitalFashion''"

definition max_hashtags :: int where
  "max_hashtags = 30"

definition mentions :: string where
  "mentions = ''@thevarunmayya @acknowledge.ai @eluna.ai''"

definition trim_raw_caption :: "string \<Rightarrow> int \<Rightarrow> string" where
  \<comment> \<open>the two \<^verbatim>\<open>if\<close> statements that follow the computation of
      \<^verbatim>\<open>caption_to_remove_from_raw\<close>\<close>
  "trim_raw_caption raw_caption caption_to_remove_from_raw =
     (let raw1 = (if caption_to_remove_from_raw > 0
                  then ''#'' @ str_join '' #''
                         (slice 1 caption_to_remove_from_raw (str_split raw_caption '' #''))
                  else raw_caption)
      in if raw1 = ''#'' then [] else raw1)"

definition assemble_caption :: "string \<Rightarrow> int \<Rightarrow> string \<Rightarrow> string" where
  \<comment> \<open>the body of \<^verbatim>\<open>if row['caption'] != '-'\<close>, for a boilerplate literal and a cap\<close>
  "assemble_caption literal cap row_caption =
     (let raw_caption = str_strip (str_replace literal [CHR 0x0A] []);
          extracted_caption = str_strip (slice_from (str_find row_caption ''#'') row_caption);
          raw_caption_count = int (str_count raw_caption ''#'');
          extracted_caption_count = int (str_count extracted_caption ''#'');
          caption_to_remove_from_raw = extracted_caption_count + raw_caption_count - cap
      in slice_to (str_find row_caption ''#'') row_caption
         @ [CHR 0x0A, CHR 0x0A, CHR 0x0A]
         @ extracted_caption @ trim_raw_caption raw_caption caption_to_remove_from_raw
         @ [CHR 0x0A, CHR 0x0A, CHR 0x0A]
         @ mentions)"

definition post_caption :: "string \<Rightarrow> string" where
  "post_caption row_caption = assemble_caption raw_caption_literal max_hashtags row_caption"

subsection \<open>The sheet\<close>

text \<open>
  A row as \<^verbatim>\<open>get_all_records\<close> returns it, restricted to the columns the posting
  script reads.  An empty index cell is \<open>None\<close>.  The header row written by
  \<^verbatim>\<open>gsheet.insert_row(columns)\<close> is row 1 of the sheet, so record number \<open>j\<close>
  (counted from 0) is sheet row \<open>j + 2\<close>, and \<^verbatim>\<open>gsheet.find('posted_on_instagram')\<close>
  is the header cell, in row 1.
\<close>

record row =
  r_index :: "int option"
  r_type :: string
  r_location :: string
  r_group_id :: string
  r_image :: string
  r_caption :: string
  r_approved :: string
  r_posted_on_instagram :: string

record sheet =
  posted_header :: string
  records :: "row list"

definition blank_row :: row where
  "blank_row = \<lparr>r_index = None, r_type = [], r_location = [], r_group_id = [], r_image = [],
                 r_caption = [], r_approved = [], r_posted_on_instagram = []\<rparr>"

definition update_cell_posted :: "int \<Rightarrow> string \<Rightarrow> sheet \<Rightarrow> string + sheet" where
  \<comment> \<open>\<^verbatim>\<open>gsheet.update_cell(r, posted_on_instagram.col, v)\<close>: row 1 is the header cell,
      a row below the data is created, a row number below 1 is refused by the client\<close>
  "update_cell_posted r v sh =
     (if r < 1 then Inl ''IncorrectCellLabel''
      else if r = 1 then Inr (sh\<lparr>posted_header := v\<rparr>)
      else let j = nat (r - 2);
               rs = records sh @ replicate (Suc j - length (records sh)) blank_row
           in Inr (sh\<lparr>records := rs[j := (rs ! j)\<lparr>r_posted_on_instagram := v\<rparr>]\<rparr>))"

subsection \<open>The scan of \<^verbatim>\<open>scheduled_posts_on_instagram\<close>\<close>

record scan_state =
  group_id :: string
  image_urls :: "string list"
  caption :: string
  location :: string
  indexes :: "int list"

definition scan_init :: scan_state where
  "scan_init = \<lparr>group_id = [], image_urls = [], caption = [], location = [], indexes = []\<rparr>"

definition image_url_of :: "string \<Rightarrow> string" where
  "image_url_of img =
     str_replace (str_replace img (''=IMAGE('' @ [CHR 0x22]) []) (CHR 0x22 # '', 4, 120, 120)'') []"

definition accumulate :: "string \<Rightarrow> int \<Rightarrow> row \<Rightarrow> scan_state \<Rightarrow> scan_state" where
  \<comment> \<open>the statements of the loop body behind the missing-values check\<close>
  "accumulate main_location i r st =
     st\<lparr>group_id := (if group_id st = [] then r_group_id r else group_id st),
        image_urls := image_urls st @ [image_url_of (r_image r)],
        indexes := indexes st @ [i],
        caption := (if r_caption r \<noteq> ''-'' then post_caption (r_caption r) else caption st),
        location := location_tag main_location (r_location r)\<rparr>"

fun scan :: "string \<Rightarrow> row list \<Rightarrow> scan_state \<Rightarrow> scan_state" where
  "scan main_location [] st = st"
| "scan main_location (r # content) st =
     (case r_index r of
        None \<Rightarrow> st
      | Some i \<Rightarrow>
          if r_approved r = ''y'' \<and> r_posted_on_instagram r = [] \<and> r_type r = ''posts''
             \<and> (r_group_id r = group_id st \<or> group_id st = [])
          then if r_image r = [] \<or> r_caption r = [] \<or> r_location r = [] \<or> r_group_id r = []
               then scan main_location content st
               else scan main_location content (accumulate main_location i r st)
          else scan main_location content st)"

subsection \<open>Posting and marking\<close>

text \<open>
  The browser automation \<^verbatim>\<open>post_on_instagram\<close> and the clock are parameters of the
  run: \<open>poster urls caption location\<close> is \<open>None\<close> when the call returns and
  \<open>Some e\<close> when it raises an exception whose text is \<open>e\<close>.  \<^verbatim>\<open>send_messages\<close>
  appends to the list of messages sent.
\<close>

record env =
  main_location :: string
  now :: string
  poster :: "string list \<Rightarrow> string \<Rightarrow> string \<Rightarrow> string option"

record world =
  w_sheet :: sheet
  messages :: "string list"
  poster_calls :: "(string list \<times> string \<times> string) list"

definition posted_cell_row :: "int \<Rightarrow> int" where
  \<comment> \<open>the sheet row the posting script writes for a record with index \<open>i\<close>:
      \<^verbatim>\<open>posted_on_instagram.row + i\<close>, the header cell being in row 1\<close>
  "posted_cell_row i = 1 + i"

fun mark_posted :: "string \<Rightarrow> int list \<Rightarrow> sheet \<Rightarrow> string option \<times> sheet" where
  \<comment> \<open>the \<^verbatim>\<open>for i in indexes[:6]\<close> loop\<close>
  "mark_posted v [] sh = (None, sh)"
| "mark_posted v (i # is) sh =
     (case update_cell_posted (posted_cell_row i) v sh of
        Inl e \<Rightarrow> (Some e, sh)
      | Inr sh' \<Rightarrow> mark_posted v is sh')"

definition scheduled_posts_on_instagram :: "env \<Rightarrow> world \<Rightarrow> string option \<times> world" where
  \<comment> \<open>the first component is the exception that leaves the function, if any\<close>
  "scheduled_posts_on_instagram e w =
     (let st = scan (main_location e) (records (w_sheet w)) scan_init
      in if length (image_urls st) > 0
         then let urls = slice_to 6 (image_urls st);
                  w1 = w\<lparr>poster_calls := poster_calls w @ [(urls, caption st, location st)]\<rparr>
              in (case poster e urls (caption st) (location st) of
                    Some err \<Rightarrow> (Some err, w1)
                  | None \<Rightarrow>
                      (case mark_posted (now e) (slice_to 6 (indexes st)) (w_sheet w1) of
                         (Some err, sh) \<Rightarrow> (Some err, w1\<lparr>w_sheet := sh\<rparr>)
                       | (None, sh) \<Rightarrow>
                           (None, w1\<lparr>w_sheet := sh,
                                     messages := messages w1 @
                                       [''Successfully posted on instagram, checkout https://www.instagram.com/aashvithemodel'']\<rparr>)))
         else (None, w\<lparr>messages := messages w @
                          [''No posts to post on instagram, please check the sheet'']\<rparr>))"

datatype outcome = Completed | Raised string

definition main_posting :: "env \<Rightarrow> world \<Rightarrow> outcome \<times> world" where
  \<comment> \<open>the first \<^verbatim>\<open>try/except Exception\<close> block of the script's entry point;
      \<^verbatim>\<open>traceback.print_exc()\<close> returns \<^verbatim>\<open>None\<close>\<close>
  "main_posting e w =
     (case scheduled_posts_on_instagram e w of
        (None, w') \<Rightarrow> (Completed, w')
      | (Some err, w') \<Rightarrow>
          (Completed, w'\<lparr>messages := messages w' @
             [''Error while posting on instagram'' @ [CHR 0x0A] @ '' '' @ err @ '' '' @ [CHR 0x0A]
              @ '' None'']\<rparr>))"

subsection \<open>Where the rows come from: \<^verbatim>\<open>v1_generate_prompts\<close> in \<^verbatim>\<open>automation.py\<close>\<close>

text \<open>
  The generator numbers the rows it appends from the number of records already in the
  sheet, so the first record of a sheet has index 0.  A sheet without any value is
  \<open>None\<close>; the generator then writes the header row first.  \<open>places\<close> are the place
  names \<^verbatim>\<open>prompt[0]\<close> of the generated prompts.
\<close>

definition get_last_index :: "sheet option \<Rightarrow> int" where
  "get_last_index s = (case s of None \<Rightarrow> - 1 | Some sh \<Rightarrow> int (length (records sh)))"

fun v1_values :: "int \<Rightarrow> string \<Rightarrow> string \<Rightarrow> string \<Rightarrow> string list \<Rightarrow> row list" where
  "v1_values offset cap loc gid [] = []"
| "v1_values offset cap loc gid (place # places) =
     \<lparr>r_index = Some offset, r_type = ''posts'', r_location = stored_location place loc,
      r_group_id = gid, r_image = [], r_caption = cap, r_approved = [],
      r_posted_on_instagram = []\<rparr>
     # v1_values (offset + 1) ''-'' loc gid places"

definition insert_rows :: "row list \<Rightarrow> int \<Rightarrow> sheet \<Rightarrow> sheet" where
  \<comment> \<open>\<^verbatim>\<open>gsheet.insert_rows(values, row=r)\<close>, for a row \<open>r\<close> below the header\<close>
  "insert_rows vals r sh =
     (let j = nat (r - 2);
          rs = records sh @ replicate (j - length (records sh)) blank_row
      in sh\<lparr>records := take j rs @ vals @ drop j rs\<rparr>)"

definition v1_generate_prompts :: "string \<Rightarrow> string \<Rightarrow> string list \<Rightarrow> sheet option \<Rightarrow> sheet" where
  "v1_generate_prompts loc gid places s =
     (case s of
        None \<Rightarrow>
          insert_rows (v1_values 0 [] loc gid places) (0 + 2)
            \<lparr>posted_header = ''posted_on_instagram'', records = []\<rparr>
      | Some sh \<Rightarrow>
          insert_rows (v1_values (get_last_index s) [] loc gid places) (get_last_index s + 2) sh)"

definition image_cell_row :: "int \<Rightarrow> int" where
  \<comment> \<open>the sheet row \<^verbatim>\<open>generate_posts_and_caption\<close> writes for a record with index \<open>i\<close>:
      \<^verbatim>\<open>index = row["index"] + 1\<close>, then \<^verbatim>\<open>image_cell.row + index\<close>\<close>
  "image_cell_row i = 1 + (i + 1)"

subsection \<open>Vocabulary for the properties of the scan\<close>

definition ready_post :: "row \<Rightarrow> bool" where
  \<comment> \<open>the row tests of the loop that do not depend on the active group\<close>
  "ready_post r \<longleftrightarrow>
     r_approved r = ''y'' \<and> r_posted_on_instagram r = [] \<and> r_type r = ''posts''
     \<and> r_image r \<noteq> [] \<and> r_caption r \<noteq> [] \<and> r_location r \<noteq> [] \<and> r_group_id r \<noteq> []"

fun selected_rows :: "string \<Rightarrow> row list \<Rightarrow> row list" where
  \<comment> \<open>the ready rows of group \<open>g\<close> in front of the first row with an empty index\<close>
  "selected_rows g [] = []"
| "selected_rows g (r # content) =
     (if r_index r = None then []
      else (if ready_post r \<and> r_group_id r = g then [r] else []) @ selected_rows g content)"

definition ready_row :: "int \<Rightarrow> string \<Rightarrow> string \<Rightarrow> string \<Rightarrow> row" where
  \<comment> \<open>an approved, fully populated post row that has not been posted, as example input\<close>
  "ready_row i g url cap =
     \<lparr>r_index = Some i, r_type = ''posts'', r_location = ''Louvre,Paris'', r_group_id = g,
      r_image = ''=IMAGE('' @ [CHR 0x22] @ url @ [CHR 0x22] @ '', 4, 120, 120)'',
      r_caption = cap, r_approved = ''y'', r_posted_on_instagram = []\<rparr>"

definition fill_and_approve :: "string \<Rightarrow> string \<Rightarrow> row \<Rightarrow> row" where
  \<comment> \<open>what happens to a generated row before it is posted: the image formula and, on the
      first row of a group, the caption are written by \<^verbatim>\<open>generate_posts_and_caption\<close>,
      and the reviewer enters \<^verbatim>\<open>y\<close>\<close>
  "fill_and_approve url cap r =
     r\<lparr>r_image := ''=IMAGE('' @ [CHR 0x22] @ url @ [CHR 0x22] @ '', 4, 120, 120)'',
       r_caption := (if r_caption r = [] then cap else r_caption r),
       r_approved := ''y''\<rparr>"

section \<open>The OpenAI client: \<^verbatim>\<open>infrastructure/apis/openai_client.py\<close>\<close>

text \<open>
  The exception classes of the \<^verbatim>\<open>openai\<close> package that the client distinguishes
  are siblings below \<^verbatim>\<open>openai.error.OpenAIError\<close>; \<open>OtherError\<close> stands for any
  other exception of the API function.
\<close>

datatype openai_error =
  RateLimitError | AuthenticationError | InvalidRequestError | APIError | Timeout | OtherError

datatype raised =
  Library openai_error    \<comment> \<open>an exception of the \<^verbatim>\<open>openai\<close> package, passed on as it is\<close>
| OpenAIError             \<comment> \<open>\<^verbatim>\<open>core.exceptions.OpenAIError\<close>\<close>
| TypeError

text \<open>
  \<^verbatim>\<open>_make_api_call\<close>.  \<open>api_func k\<close> is what attempt \<open>k\<close> of the API function does:
  \<open>Inr\<close> a response or \<open>Inl\<close> an exception.  The result carries the delays slept, in
  seconds and in order, and the number of times the API function was called.  A loop that
  ends without a return gives \<^verbatim>\<open>None\<close>.
\<close>

fun make_api_call_loop ::
  "(nat \<Rightarrow> openai_error + 'r) \<Rightarrow> nat \<Rightarrow> rat \<Rightarrow> nat list \<Rightarrow> rat list \<Rightarrow> nat
     \<Rightarrow> (raised + 'r option) \<times> rat list \<times> nat" where
  "make_api_call_loop api_func max_retries base_delay [] slept n = (Inr None, slept, n)"
| "make_api_call_loop api_func max_retries base_delay (attempt # rest) slept n =
     (case api_func attempt of
        Inr response \<Rightarrow> (Inr (Some response), slept, Suc n)
      | Inl RateLimitError \<Rightarrow>
          if attempt = max_retries - 1 then (Inl (Library RateLimitError), slept, Suc n)
          else make_api_call_loop api_func max_retries base_delay rest
                 (slept @ [base_delay * 2 ^ attempt]) (Suc n)
      | Inl APIError \<Rightarrow>
          if attempt = max_retries - 1 then (Inl OpenAIError, slept, Suc n)
          else make_api_call_loop api_func max_retries base_delay rest
                 (slept @ [base_delay * 2 ^ attempt]) (Suc n)
      | Inl Timeout \<Rightarrow>
          if attempt = max_retries - 1 then (Inl OpenAIError, slept, Suc n)
          else make_api_call_loop api_func max_retries base_delay rest
                 (slept @ [base_delay * 2 ^ attempt]) (Suc n)
      | Inl e \<Rightarrow> (Inl (Library e), slept, Suc n))"

definition make_api_call ::
  "(nat \<Rightarrow> openai_error + 'r) \<Rightarrow> (raised + 'r option) \<times> rat list \<times> nat" where
  \<comment> \<open>\<^verbatim>\<open>max_retries = 3\<close>, \<^verbatim>\<open>base_delay = 1.0\<close>, \<^verbatim>\<open>for attempt in range(max_retries)\<close>\<close>
  "make_api_call api_func = make_api_call_loop api_func 3 1 [0..<3] [] 0"

text \<open>
  \<^verbatim>\<open>generate_completion\<close>.  The client state is the pacing delay
  \<^verbatim>\<open>_rate_limit_delay\<close>, slept before the call.  A response is modelled by its text.
  The classes \<^verbatim>\<open>OpenAIRateLimitError\<close> and \<^verbatim>\<open>OpenAIAuthenticationError\<close> pass
  \<^verbatim>\<open>error_code\<close> to \<^verbatim>\<open>OpenAIError.__init__\<close>, which passes its own
  \<^verbatim>\<open>error_code\<close> together with the received keyword arguments on to the next
  constructor: the call has the keyword twice, so what leaves the two
  \<^verbatim>\<open>raise\<close> statements is a \<^verbatim>\<open>TypeError\<close>.  The delays are floating point numbers
  in the code and rationals here.
\<close>

definition raise_OpenAIRateLimitError :: raised where
  "raise_OpenAIRateLimitError = TypeError"

definition raise_OpenAIAuthenticationError :: raised where
  "raise_OpenAIAuthenticationError = TypeError"

definition generate_completion ::
  "(nat \<Rightarrow> openai_error + string) \<Rightarrow> rat \<Rightarrow> (raised + string) \<times> rat \<times> rat list \<times> nat" where
  \<comment> \<open>result, new \<^verbatim>\<open>_rate_limit_delay\<close>, delays slept, calls of the API function\<close>
  "generate_completion api_func rate_limit_delay =
     (case make_api_call api_func of
        (Inr (Some content), slept, n) \<Rightarrow>
          (Inr (str_strip content), max (1 / 2) (rate_limit_delay * (9 / 10)),
           rate_limit_delay # slept, n)
      | (Inr None, slept, n) \<Rightarrow>
          (Inl OpenAIError, max (1 / 2) (rate_limit_delay * (9 / 10)), rate_limit_delay # slept, n)
      | (Inl (Library RateLimitError), slept, n) \<Rightarrow>
          (Inl raise_OpenAIRateLimitError, min 60 (rate_limit_delay * 2),
           rate_limit_delay # slept, n)
      | (Inl (Library AuthenticationError), slept, n) \<Rightarrow>
          (Inl raise_OpenAIAuthenticationError, rate_limit_delay, rate_limit_delay # slept, n)
      | (Inl e, slept, n) \<Rightarrow>
          (Inl OpenAIError, rate_limit_delay, rate_limit_delay # slept, n))"

section \<open>The content model: \<^verbatim>\<open>core/models/content.py\<close>\<close>

text \<open>
  The classes are read as records and a time stamp is kept as its formatted text.  Of a
  sheet row the columns \<^verbatim>\<open>seed\<close> and the numeric details of images are left out.

  \<^verbatim>\<open>ContentItem\<close> is a pydantic model with \<^verbatim>\<open>use_enum_values = True\<close>: a field of
  an enumeration type that is given to the constructor is validated and then holds the
  value of the member, a plain \<^verbatim>\<open>str\<close>; a field left to its default, and a field that
  is assigned later, holds what was written there.  A plain \<^verbatim>\<open>str\<close> compares equal
  to the member with that value (the enumerations derive from \<^verbatim>\<open>str\<close>), but it has
  no attribute \<^verbatim>\<open>value\<close>.
\<close>

datatype content_type = POST | STORY

datatype approval_status = PENDING | APPROVED | REJECTED

datatype posting_status = NOT_POSTED | POSTED | FAILED

datatype 'a enum_field =
  Member 'a       \<comment> \<open>a member of the enumeration\<close>
| Plain string    \<comment> \<open>a plain \<^verbatim>\<open>str\<close>\<close>

definition attribute_error :: string where
  "attribute_error =
     [CHR 0x27] @ ''str'' @ [CHR 0x27] @ '' object has no attribute '' @ [CHR 0x27] @ ''value''
     @ [CHR 0x27]"

definition attribute_value :: "('a \<Rightarrow> string) \<Rightarrow> 'a enum_field \<Rightarrow> string + string" where
  \<comment> \<open>the expression \<^verbatim>\<open>field.value\<close>; \<open>Inl\<close> is the text of the \<^verbatim>\<open>AttributeError\<close>\<close>
  "attribute_value val f = (case f of Member m \<Rightarrow> Inr (val m) | Plain t \<Rightarrow> Inl attribute_error)"

definition field_text :: "('a \<Rightarrow> string) \<Rightarrow> 'a enum_field \<Rightarrow> string" where
  \<comment> \<open>the text a field compares equal to\<close>
  "field_text val f = (case f of Member m \<Rightarrow> val m | Plain t \<Rightarrow> t)"

definition validated :: "('a \<Rightarrow> string) \<Rightarrow> 'a \<Rightarrow> 'a enum_field" where
  \<comment> \<open>what the constructor stores for a member it is given\<close>
  "validated val m = Plain (val m)"

fun content_type_value :: "content_type \<Rightarrow> string" where
  "content_type_value POST = ''posts''"
| "content_type_value STORY = ''story''"

fun approval_status_value :: "approval_status \<Rightarrow> string" where
  "approval_status_value PENDING = []"
| "approval_status_value APPROVED = ''y''"
| "approval_status_value REJECTED = ''n''"

fun posting_status_value :: "posting_status \<Rightarrow> string" where
  "posting_status_value NOT_POSTED = []"
| "posting_status_value POSTED = ''posted''"
| "posting_status_value FAILED = ''failed''"

definition new_ContentType :: "string \<Rightarrow> content_type option" where
  \<comment> \<open>\<^verbatim>\<open>ContentType(v)\<close>; \<open>None\<close> is the \<^verbatim>\<open>ValueError\<close>\<close>
  "new_ContentType v =
     (if v = ''posts'' then Some POST else if v = ''story'' then Some STORY else None)"

definition new_ApprovalStatus :: "string \<Rightarrow> approval_status option" where
  "new_ApprovalStatus v =
     (if v = [] then Some PENDING else if v = ''y'' then Some APPROVED
      else if v = ''n'' then Some REJECTED else None)"

record location_data =
  loc_name :: string
  loc_country :: "string option"

definition full_name :: "location_data \<Rightarrow> string" where
  "full_name l =
     (case loc_country l of
        None \<Rightarrow> loc_name l
      | Some c \<Rightarrow> if c \<noteq> [] \<and> str_find (loc_name l) c < 0 then loc_name l @ '', '' @ c
                  else loc_name l)"

record caption_data =
  cap_text :: string
  cap_hashtags :: "string list"
  cap_mentions :: "string list"

definition formatted_caption :: "caption_data \<Rightarrow> string" where
  "formatted_caption c =
     str_join [CHR 0x0A, CHR 0x0A]
       ([cap_text c]
        @ (if cap_hashtags c \<noteq> [] then [str_join '' '' (cap_hashtags c)] else [])
        @ (if cap_mentions c \<noteq> [] then [str_join '' '' (cap_mentions c)] else []))"

record image_data =
  img_url :: "string option"

record content_item =
  ci_index :: int
  ci_content_type :: "content_type enum_field"
  ci_group_id :: string
  ci_prompt :: "string option"
  ci_caption :: "caption_data option"
  ci_image :: "image_data option"
  ci_location :: location_data
  ci_approval_status :: "approval_status enum_field"
  ci_posting_status :: "posting_status enum_field"
  ci_generated_at :: "string option"
  ci_posted_at :: "string option"

record sheet_row =
  c_index :: "int option"
  c_type :: string
  c_prompt :: string
  c_location :: string
  c_group_id :: string
  c_image :: string
  c_generated_on :: string
  c_caption :: string
  c_approved :: string
  c_posted_on_instagram :: string
  c_hyperlink_image :: string

definition image_formula :: "string \<Rightarrow> string" where
  "image_formula url = ''=IMAGE('' @ [CHR 0x22] @ url @ [CHR 0x22] @ '', 4, 120, 120)''"

definition hyperlink_formula :: "string \<Rightarrow> string" where
  "hyperlink_formula url =
     ''=HYPERLINK('' @ [CHR 0x22] @ url @ [CHR 0x22] @ '', '' @ [CHR 0x22] @ ''Link''
     @ [CHR 0x22] @ '')''"

definition image_url_present :: "content_item \<Rightarrow> string option" where
  \<comment> \<open>the address when \<^verbatim>\<open>self.image and self.image.url\<close> holds\<close>
  "image_url_present item =
     (case ci_image item of
        None \<Rightarrow> None
      | Some img \<Rightarrow> (case img_url img of None \<Rightarrow> None
                     | Some u \<Rightarrow> if u = [] then None else Some u))"

definition to_sheet_row :: "content_item \<Rightarrow> string + sheet_row" where
  \<comment> \<open>the list is built from left to right, so \<^verbatim>\<open>self.content_type.value\<close> is
      evaluated before \<^verbatim>\<open>self.approval_status.value\<close>; \<open>Inl\<close> is the text of the
      exception\<close>
  "to_sheet_row item =
     (case attribute_value content_type_value (ci_content_type item) of
        Inl err \<Rightarrow> Inl err
      | Inr type_text \<Rightarrow>
     (case attribute_value approval_status_value (ci_approval_status item) of
        Inl err \<Rightarrow> Inl err
      | Inr approved_text \<Rightarrow>
          Inr \<lparr>c_index = Some (ci_index item),
               c_type = type_text,
               c_prompt = (case ci_prompt item of None \<Rightarrow> [] | Some t \<Rightarrow> t),
               c_location = full_name (ci_location item),
               c_group_id = ci_group_id item,
               c_image = (case image_url_present item of None \<Rightarrow> []
                          | Some u \<Rightarrow> image_formula u),
               c_generated_on = (case ci_generated_at item of None \<Rightarrow> [] | Some t \<Rightarrow> t),
               c_caption = (case ci_caption item of None \<Rightarrow> []
                            | Some c \<Rightarrow> formatted_caption c),
               c_approved = approved_text,
               c_posted_on_instagram = (case ci_posted_at item of None \<Rightarrow> [] | Some t \<Rightarrow> t),
               c_hyperlink_image =
                 (case image_url_present item of None \<Rightarrow> []
                  | Some u \<Rightarrow> hyperlink_formula u)\<rparr>))"

text \<open>
  Library functions that \<^verbatim>\<open>from_sheet_row\<close> and the repository call are parameters:
  \<open>parse_uuid\<close> is \<^verbatim>\<open>str(UUID(s))\<close>, \<open>strptime\<close> is \<^verbatim>\<open>datetime.strptime\<close> with the
  format first (\<open>None\<close> when they raise), \<open>utcnow\<close> is the clock in seconds and
  \<open>utcnow_text\<close> its formatted text.
\<close>

record lib =
  parse_uuid :: "string \<Rightarrow> string option"
  strptime :: "string \<Rightarrow> string \<Rightarrow> string option"
  utcnow :: int
  utcnow_text :: string

definition split_once :: "string \<Rightarrow> string \<Rightarrow> string list" where
  \<comment> \<open>\<^verbatim>\<open>s.split(sep, 1)\<close> for a non-empty separator\<close>
  "split_once s sep =
     (let i = str_find s sep
      in if i < 0 then [s] else [take (nat i) s, drop (nat i + length sep) s])"

definition parse_image_url :: "string \<Rightarrow> string option" where
  \<comment> \<open>the first statements of \<^verbatim>\<open>from_sheet_row\<close>\<close>
  "parse_image_url formula =
     (if formula \<noteq> [] \<and> str_find formula ''IMAGE('' \<ge> 0
      then let start = str_find formula [CHR 0x22] + 1;
               end = find_from [CHR 0x22] (nat start) (drop (nat start) formula)
           in if start > 0 \<and> end > start then Some (slice start end formula) else None
      else None)"

definition parse_location :: "string \<Rightarrow> location_data" where
  "parse_location location_str =
     (case split_once location_str '', '' of
        [n] \<Rightarrow> \<lparr>loc_name = n, loc_country = None\<rparr>
      | n # c # _ \<Rightarrow> \<lparr>loc_name = n, loc_country = Some c\<rparr>
      | [] \<Rightarrow> \<lparr>loc_name = location_str, loc_country = None\<rparr>)"

definition from_sheet_row :: "lib \<Rightarrow> sheet_row \<Rightarrow> nat \<Rightarrow> content_item option" where
  \<comment> \<open>\<open>None\<close> when a constructor or validator raises; the repository then skips the row\<close>
  "from_sheet_row lb row i =
     (let image_url = parse_image_url (c_image row);
          generated_at = (if c_generated_on row \<noteq> []
                          then strptime lb ''%d/%m/%Y %H:%M:%S'' (c_generated_on row) else None);
          posted_at = (if c_posted_on_instagram row \<noteq> []
                       then strptime lb ''%Y-%m-%d %H:%M'' (c_posted_on_instagram row) else None)
      in case new_ContentType (c_type row) of
           None \<Rightarrow> None
         | Some ct \<Rightarrow>
        (case parse_uuid lb (c_group_id row) of
           None \<Rightarrow> None
         | Some gid \<Rightarrow>
        (if c_prompt row \<noteq> [] \<and> length (str_strip (c_prompt row)) < 10 then None
         else if c_caption row \<noteq> [] \<and> length (str_strip (c_caption row)) < 1 then None
         else if (case image_url of None \<Rightarrow> False
                  | Some u \<Rightarrow> u \<noteq> [] \<and> \<not> prefix ''http://'' u \<and> \<not> prefix ''https://'' u)
              then None
         else case new_ApprovalStatus (c_approved row) of
           None \<Rightarrow> None
         | Some appr \<Rightarrow>
             Some \<lparr>ci_index = int i,
                   ci_content_type = validated content_type_value ct,
                   ci_group_id = gid,
                   ci_prompt = (if c_prompt row \<noteq> [] then Some (str_strip (c_prompt row))
                                else None),
                   ci_caption = (if c_caption row \<noteq> []
                                 then Some \<lparr>cap_text = str_strip (c_caption row),
                                            cap_hashtags = [], cap_mentions = []\<rparr>
                                 else None),
                   ci_image = (case image_url of None \<Rightarrow> None
                               | Some u \<Rightarrow> if u = [] then None
                                           else Some \<lparr>img_url = Some u\<rparr>),
                   ci_location = parse_location (c_location row),
                   ci_approval_status = validated approval_status_value appr,
                   ci_posting_status =
                     validated posting_status_value
                       (if c_posted_on_instagram row \<noteq> [] then POSTED else NOT_POSTED),
                   ci_generated_at = generated_at,
                   ci_posted_at = posted_at\<rparr>)))"

section \<open>The content repository: \<^verbatim>\<open>core/repositories/content_repository.py\<close>\<close>

datatype app_error =
  GoogleSheetsError string
| FileAccessError string
| FileNotFoundError string
| WorkflowError string
| CapabilityError string    \<comment> \<open>an exception of a service or of a library, with its text\<close>

fun error_str :: "app_error \<Rightarrow> string" where
  \<comment> \<open>\<^verbatim>\<open>str(e)\<close>: \<^verbatim>\<open>AashviError.__str__\<close> puts the error code in front\<close>
  "error_str (GoogleSheetsError m) = ''[GOOGLE_SHEETS_ERROR] '' @ m"
| "error_str (FileAccessError m) = ''[FILE_ACCESS_DENIED] '' @ m"
| "error_str (FileNotFoundError m) = ''[FILE_NOT_FOUND] '' @ m"
| "error_str (WorkflowError m) = ''[WorkflowError] '' @ m"
| "error_str (CapabilityError m) = m"

record sheets_client =
  body :: "sheet_row list"
  get_all_records_error :: "string option"
  append_rows_error :: "string option"
  update_cell_error :: "string option"

datatype column = Col_image | Col_generated_on | Col_caption | Col_hyperlink_image

fun set_cell :: "column \<Rightarrow> string \<Rightarrow> sheet_row \<Rightarrow> sheet_row" where
  "set_cell Col_image v r = r\<lparr>c_image := v\<rparr>"
| "set_cell Col_generated_on v r = r\<lparr>c_generated_on := v\<rparr>"
| "set_cell Col_caption v r = r\<lparr>c_caption := v\<rparr>"
| "set_cell Col_hyperlink_image v r = r\<lparr>c_hyperlink_image := v\<rparr>"

definition blank_sheet_row :: sheet_row where
  "blank_sheet_row =
     \<lparr>c_index = None, c_type = [], c_prompt = [], c_location = [], c_group_id = [],
      c_image = [], c_generated_on = [], c_caption = [], c_approved = [],
      c_posted_on_instagram = [], c_hyperlink_image = []\<rparr>"

definition client_get_all_records :: "sheets_client \<Rightarrow> string + sheet_row list" where
  \<comment> \<open>Modelled from the spec: \<^verbatim>\<open>GoogleSheetsClient.get_all_records\<close> of
      \<^verbatim>\<open>infrastructure/apis/sheets_client.py\<close>, the row-level read-all of the tabular
      store; it returns the rows below the header or raises.\<close>
  "client_get_all_records cl =
     (case get_all_records_error cl of Some e \<Rightarrow> Inl e | None \<Rightarrow> Inr (body cl))"

definition client_append_rows :: "sheet_row list \<Rightarrow> sheets_client \<Rightarrow> string option \<times> sheets_client" where
  \<comment> \<open>Modelled from the spec: \<^verbatim>\<open>GoogleSheetsClient.append_rows\<close>, the append-rows of the
      tabular store; the rows are added below the last row, or the call raises.\<close>
  "client_append_rows rows cl =
     (case append_rows_error cl of
        Some e \<Rightarrow> (Some e, cl)
      | None \<Rightarrow> (None, cl\<lparr>body := body cl @ rows\<rparr>))"

definition client_update_cell ::
  "int \<Rightarrow> column \<Rightarrow> string \<Rightarrow> sheets_client \<Rightarrow> string option \<times> sheets_client" where
  \<comment> \<open>Modelled from the spec: \<^verbatim>\<open>GoogleSheetsClient.update_cell\<close>, the update-cell of the
      tabular store.  Row 1 is the header row, which is not kept here; a row below the
      data is created; a row number below 1 is refused.\<close>
  "client_update_cell r col v cl =
     (case update_cell_error cl of
        Some e \<Rightarrow> (Some e, cl)
      | None \<Rightarrow>
          if r < 1 then (Some ''invalid row'', cl)
          else if r = 1 then (None, cl)
          else let j = nat (r - 2);
                   rs = body cl @ replicate (Suc j - length (body cl)) blank_sheet_row
               in (None, cl\<lparr>body := rs[j := set_cell col v (rs ! j)]\<rparr>))"

record repository =
  client :: sheets_client
  cache :: "content_item list option"
  cache_timestamp :: "int option"

definition is_cache_valid :: "lib \<Rightarrow> repository \<Rightarrow> bool" where
  \<comment> \<open>\<^verbatim>\<open>max_age_seconds = 300\<close>\<close>
  "is_cache_valid lb repo =
     (case cache_timestamp repo of None \<Rightarrow> False | Some t \<Rightarrow> utcnow lb - t < 300)"

definition invalidate_cache :: "repository \<Rightarrow> repository" where
  "invalidate_cache repo = repo\<lparr>cache := None, cache_timestamp := None\<rparr>"

fun parse_rows :: "lib \<Rightarrow> nat \<Rightarrow> sheet_row list \<Rightarrow> content_item list" where
  \<comment> \<open>the loop of \<^verbatim>\<open>get_all_content\<close>: an empty or zero index cell and a row that does
      not parse are skipped\<close>
  "parse_rows lb i [] = []"
| "parse_rows lb i (row # rows) =
     (if c_index row = None \<or> c_index row = Some 0 then parse_rows lb (Suc i) rows
      else case from_sheet_row lb row i of
             None \<Rightarrow> parse_rows lb (Suc i) rows
           | Some item \<Rightarrow> item # parse_rows lb (Suc i) rows)"

definition get_all_content ::
  "lib \<Rightarrow> bool \<Rightarrow> repository \<Rightarrow> (app_error + content_item list) \<times> repository" where
  "get_all_content lb use_cache repo =
     (if use_cache \<and> is_cache_valid lb repo
      then (Inr (case cache repo of None \<Rightarrow> [] | Some items \<Rightarrow> items), repo)
      else case client_get_all_records (client repo) of
             Inl e \<Rightarrow> (Inl (GoogleSheetsError (''Failed to retrieve content: '' @ e)), repo)
           | Inr sheet_data \<Rightarrow>
               (let content_items = parse_rows lb 0 sheet_data
                in (Inr content_items,
                    repo\<lparr>cache := Some content_items, cache_timestamp := Some (utcnow lb)\<rparr>)))"

definition get_last_index' :: "lib \<Rightarrow> repository \<Rightarrow> int \<times> repository" where
  \<comment> \<open>\<^verbatim>\<open>_get_last_index\<close>: every exception is caught and answered with 0\<close>
  "get_last_index' lb repo =
     (case get_all_content lb False repo of
        (Inl e, repo') \<Rightarrow> (0, repo')
      | (Inr [], repo') \<Rightarrow> (0, repo')
      | (Inr (item # items), repo') \<Rightarrow> (fold max (map ci_index items) (ci_index item), repo'))"

definition assign_indices :: "int \<Rightarrow> content_item list \<Rightarrow> content_item list" where
  \<comment> \<open>\<^verbatim>\<open>item.index = last_index + i + 1\<close> for \<^verbatim>\<open>i, item in enumerate(content_items)\<close>\<close>
  "assign_indices last_index content_items =
     map (\<lambda>(i, item). item\<lparr>ci_index := last_index + int i + 1\<rparr>) (enumerate 0 content_items)"

fun rows_to_insert :: "content_item list \<Rightarrow> string + sheet_row list" where
  \<comment> \<open>\<^verbatim>\<open>rows_to_insert.append(item.to_sheet_row())\<close> item by item: the first
      exception ends the loop\<close>
  "rows_to_insert [] = Inr []"
| "rows_to_insert (item # items) =
     (case to_sheet_row item of
        Inl err \<Rightarrow> Inl err
      | Inr r \<Rightarrow> (case rows_to_insert items of Inl err \<Rightarrow> Inl err | Inr rs \<Rightarrow> Inr (r # rs)))"

definition create_content_batch ::
  "lib \<Rightarrow> content_item list \<Rightarrow> repository \<Rightarrow> (app_error + content_item list) \<times> repository" where
  "create_content_batch lb content_items repo =
     (if content_items = [] then (Inr [], repo)
      else case get_last_index' lb repo of
        (last_index, repo1) \<Rightarrow>
          (let items = assign_indices last_index content_items
           in case rows_to_insert items of
                Inl err \<Rightarrow>
                  (Inl (GoogleSheetsError (''Failed to create content: '' @ err)), repo1)
              | Inr rows \<Rightarrow>
                  (case client_append_rows rows (client repo1) of
                     (Some e, cl) \<Rightarrow>
                       (Inl (GoogleSheetsError (''Failed to create content: '' @ e)),
                        repo1\<lparr>client := cl\<rparr>)
                   | (None, cl) \<Rightarrow> (Inr items, invalidate_cache (repo1\<lparr>client := cl\<rparr>)))))"

record content_counts =
  posts :: nat
  stories :: nat
  approved_posts :: nat
  approved_stories :: nat

definition count_non_posted :: "content_item list \<Rightarrow> content_counts" where
  \<comment> \<open>the counting loop: posts by distinct group, stories by row\<close>
  "count_non_posted all_content =
     (let open_items =
            filter (\<lambda>item. field_text posting_status_value (ci_posting_status item)
                             = posting_status_value NOT_POSTED) all_content;
          post_items =
            filter (\<lambda>item. field_text content_type_value (ci_content_type item)
                             = content_type_value POST) open_items;
          story_items =
            filter (\<lambda>item. field_text content_type_value (ci_content_type item)
                             \<noteq> content_type_value POST
                           \<and> field_text content_type_value (ci_content_type item)
                             = content_type_value STORY) open_items;
          approved = (\<lambda>item. field_text approval_status_value (ci_approval_status item)
                                = approval_status_value APPROVED \<and> ci_image item \<noteq> None)
      in \<lparr>posts = length (remdups (map ci_group_id post_items)),
          stories = length story_items,
          approved_posts = length (remdups (map ci_group_id (filter approved post_items))),
          approved_stories = length (filter approved story_items)\<rparr>)"

definition get_non_posted_content_counts :: "lib \<Rightarrow> repository \<Rightarrow> content_counts \<times> repository" where
  "get_non_posted_content_counts lb repo =
     (case get_all_content lb True repo of
        (Inr all_content, repo') \<Rightarrow> (count_non_posted all_content, repo')
      | (Inl e, repo') \<Rightarrow>
          (\<lparr>posts = 0, stories = 0, approved_posts = 0, approved_stories = 0\<rparr>, repo'))"

fun update_cells ::
  "(int \<times> column \<times> string) list \<Rightarrow> sheets_client \<Rightarrow> string option \<times> sheets_client" where
  \<comment> \<open>a sequence of \<^verbatim>\<open>update_cell\<close> calls inside one \<^verbatim>\<open>try\<close>: the first that raises
      ends it\<close>
  "update_cells [] cl = (None, cl)"
| "update_cells ((r, col, v) # rest) cl =
     (case client_update_cell r col v cl of
        (Some e, cl') \<Rightarrow> (Some e, cl')
      | (None, cl') \<Rightarrow> update_cells rest cl')"

definition update_image_data ::
  "lib \<Rightarrow> content_item \<Rightarrow> string option \<Rightarrow> string option \<Rightarrow> repository
     \<Rightarrow> app_error option \<times> content_item \<times> repository" where
  \<comment> \<open>an absent address is formatted as the text \<^verbatim>\<open>None\<close>\<close>
  "update_image_data lb item image_url hyperlink_url repo =
     (let shown = (case image_url of None \<Rightarrow> ''None'' | Some u \<Rightarrow> u);
          writes =
            [(ci_index item + 1, Col_image, image_formula shown)]
            @ (case hyperlink_url of
                 None \<Rightarrow> []
               | Some h \<Rightarrow> if h = [] then []
                           else [(ci_index item + 1, Col_hyperlink_image, hyperlink_formula h)])
            @ [(ci_index item + 1, Col_generated_on, utcnow_text lb)]
      in case update_cells writes (client repo) of
           (Some e, cl) \<Rightarrow>
             (Some (GoogleSheetsError (''Failed to update image: '' @ e)), item,
              repo\<lparr>client := cl\<rparr>)
         | (None, cl) \<Rightarrow>
             (None,
              item\<lparr>ci_image := (case ci_image item of None \<Rightarrow> None
                                 | Some img \<Rightarrow> Some (img\<lparr>img_url := image_url\<rparr>)),
                   ci_generated_at := Some (utcnow_text lb)\<rparr>,
              invalidate_cache (repo\<lparr>client := cl\<rparr>)))"

definition update_caption_data ::
  "content_item \<Rightarrow> string \<Rightarrow> repository \<Rightarrow> app_error option \<times> content_item \<times> repository" where
  "update_caption_data item cap repo =
     (case update_cells [(ci_index item + 1, Col_caption, cap)] (client repo) of
        (Some e, cl) \<Rightarrow>
          (Some (GoogleSheetsError (''Failed to update caption: '' @ e)), item,
           repo\<lparr>client := cl\<rparr>)
      | (None, cl) \<Rightarrow>
          (None,
           item\<lparr>ci_caption := (case ci_caption item of None \<Rightarrow> None
                                 | Some c \<Rightarrow> Some (c\<lparr>cap_text := cap\<rparr>))\<rparr>,
           invalidate_cache (repo\<lparr>client := cl\<rparr>)))"

section \<open>The generation workflow: \<^verbatim>\<open>application/workflows/content_workflow.py\<close>\<close>

text \<open>
  The services that reach the AI capabilities are parameters of the workflow; each call
  is recorded.  \<open>Inl\<close> is the text of the exception a call raises.  The notification
  service catches every exception itself, so sending is recorded and never fails.
\<close>

datatype capability_call =
  GenerateContentBatch content_type int
| GenerateImage content_item
| GenerateCaption content_item

datatype notification =
  ProcessingUpdate string string
| ErrorNotification string

record workflow_env =
  wlib :: lib
  generate_content_batch :: "content_type \<Rightarrow> location_data \<Rightarrow> int \<Rightarrow> string + content_item list"
  generate_image_for_content :: "content_item \<Rightarrow> string + image_data"
  generate_caption :: "content_item \<Rightarrow> string \<Rightarrow> string + caption_data"
  get_current_location :: "app_error + location_data"
  max_non_posted_instagram_posts :: nat
  max_non_posted_stories :: nat
  lock_read_fails :: bool
  lock_write_fails :: "string \<Rightarrow> bool"

record work_state =
  content_repo :: repository
  notifications :: "notification list"
  capability_calls :: "capability_call list"

record app_state =
  running_lock_file :: "string option"
  work :: work_state

definition str_lower :: "string \<Rightarrow> string" where
  \<comment> \<open>\<^verbatim>\<open>str.lower()\<close> on the letters A to Z\<close>
  "str_lower s =
     map (\<lambda>c. if (65::nat) \<le> of_char c \<and> of_char c \<le> (90::nat)
              then char_of (of_char c + (32::nat)) else c) s"

definition is_process_running :: "workflow_env \<Rightarrow> app_state \<Rightarrow> bool" where
  "is_process_running e s =
     (case running_lock_file s of
        None \<Rightarrow> False
      | Some content \<Rightarrow>
          if lock_read_fails e then False else str_lower (str_strip content) = ''yep'')"

definition set_process_running :: "workflow_env \<Rightarrow> bool \<Rightarrow> app_state \<Rightarrow> app_error option \<times> app_state" where
  "set_process_running e is_running s =
     (let status = (if is_running then ''yep'' else ''nope'')
      in if lock_write_fails e status
         then (Some (FileAccessError ''File write denied: is_running.txt''), s)
         else (None, s\<lparr>running_lock_file := Some status\<rparr>))"

fun generate_images_for_content ::
  "workflow_env \<Rightarrow> content_item list \<Rightarrow> work_state \<Rightarrow> content_item list \<times> work_state" where
  \<comment> \<open>the failure of one item is logged and the loop goes on\<close>
  "generate_images_for_content e [] s = ([], s)"
| "generate_images_for_content e (item # content_items) s =
     (if ci_prompt item = None
      then (case generate_images_for_content e content_items s of
              (items', s') \<Rightarrow> (item # items', s'))
      else
        let s1 = s\<lparr>capability_calls := capability_calls s @ [GenerateImage item]\<rparr>
        in case generate_image_for_content e item of
             Inl err \<Rightarrow>
               (case generate_images_for_content e content_items s1 of
                  (items', s') \<Rightarrow> (item # items', s'))
           | Inr image_data \<Rightarrow>
               (let item1 = item\<lparr>ci_image := Some image_data,
                                  ci_generated_at := Some (utcnow_text (wlib e))\<rparr>
                in case update_image_data (wlib e) item1 (img_url image_data) (img_url image_data) (content_repo s1) of
                     (_, item2, repo') \<Rightarrow>
                       (case generate_images_for_content e content_items (s1\<lparr>content_repo := repo'\<rparr>) of
                          (items', s') \<Rightarrow> (item2 # items', s'))))"

fun first_items_of_groups :: "string list \<Rightarrow> content_item list \<Rightarrow> content_item list" where
  \<comment> \<open>the first item of every group, in the order in which the groups first occur\<close>
  "first_items_of_groups seen [] = []"
| "first_items_of_groups seen (item # content_items) =
     (if ci_group_id item \<in> set seen then first_items_of_groups seen content_items
      else item # first_items_of_groups (ci_group_id item # seen) content_items)"

fun generate_captions_for_first_items ::
  "workflow_env \<Rightarrow> content_item list \<Rightarrow> work_state \<Rightarrow> work_state" where
  \<comment> \<open>the loop over the groups; the test \<^verbatim>\<open>first_item.content_type.value == "posts"\<close>
      stands in front of the inner \<^verbatim>\<open>try\<close>, so its exception is caught by the outer
      \<^verbatim>\<open>except\<close> clause of \<^verbatim>\<open>_generate_captions_for_content\<close>, which ends the loop\<close>
  "generate_captions_for_first_items e [] s = s"
| "generate_captions_for_first_items e (first_item # others) s =
     (case attribute_value content_type_value (ci_content_type first_item) of
        Inl err \<Rightarrow> s
      | Inr type_text \<Rightarrow>
          if type_text = ''posts''
          then
            let s1 = s\<lparr>capability_calls := capability_calls s @ [GenerateCaption first_item]\<rparr>
            in case generate_caption e first_item (loc_name (ci_location first_item)) of
                 Inl err \<Rightarrow> generate_captions_for_first_items e others s1
               | Inr caption_data \<Rightarrow>
                   (case update_caption_data (first_item\<lparr>ci_caption := Some caption_data\<rparr>)
                           (formatted_caption caption_data) (content_repo s1) of
                      (_, _, repo') \<Rightarrow>
                        generate_captions_for_first_items e others (s1\<lparr>content_repo := repo'\<rparr>))
          else generate_captions_for_first_items e others s)"

definition generate_captions_for_content ::
  "workflow_env \<Rightarrow> content_item list \<Rightarrow> work_state \<Rightarrow> work_state" where
  "generate_captions_for_content e content_items s =
     generate_captions_for_first_items e (first_items_of_groups [] content_items) s"

definition request_generation ::
  "workflow_env \<Rightarrow> content_type \<Rightarrow> location_data \<Rightarrow> int \<Rightarrow> work_state
     \<Rightarrow> (string + content_item list) \<times> work_state" where
  \<comment> \<open>\<^verbatim>\<open>ContentRequest(...)\<close>, which refuses a count outside 1 to 10, followed by
      \<^verbatim>\<open>content_service.generate_content_batch(request)\<close>\<close>
  "request_generation e ct loc n s =
     (if n < 1 \<or> 10 < n then (Inl ''validation error for ContentRequest'', s)
      else (generate_content_batch e ct loc n,
            s\<lparr>capability_calls := capability_calls s @ [GenerateContentBatch ct n]\<rparr>))"

definition generate_posts ::
  "workflow_env \<Rightarrow> location_data \<Rightarrow> int \<Rightarrow> work_state \<Rightarrow> app_error option \<times> work_state" where
  \<comment> \<open>\<^verbatim>\<open>_generate_posts\<close>\<close>
  "generate_posts e loc n s =
     (case request_generation e POST loc n s of
        (Inl err, s1) \<Rightarrow> (Some (WorkflowError (''Post generation failed: '' @ err)), s1)
      | (Inr content_items, s1) \<Rightarrow>
          (case create_content_batch (wlib e) content_items (content_repo s1) of
             (Inl err, repo') \<Rightarrow>
               (Some (WorkflowError (''Post generation failed: '' @ error_str err)),
                s1\<lparr>content_repo := repo'\<rparr>)
           | (Inr saved_items, repo') \<Rightarrow>
               (case generate_images_for_content e saved_items (s1\<lparr>content_repo := repo'\<rparr>) of
                  (items', s2) \<Rightarrow> (None, generate_captions_for_content e items' s2))))"

definition generate_stories ::
  "workflow_env \<Rightarrow> location_data \<Rightarrow> int \<Rightarrow> work_state \<Rightarrow> app_error option \<times> work_state" where
  \<comment> \<open>\<^verbatim>\<open>_generate_stories\<close>: the items are approved before they are saved\<close>
  "generate_stories e loc n s =
     (case request_generation e STORY loc n s of
        (Inl err, s1) \<Rightarrow> (Some (WorkflowError (''Story generation failed: '' @ err)), s1)
      | (Inr content_items, s1) \<Rightarrow>
          (case create_content_batch (wlib e)
                  (map (\<lambda>item. item\<lparr>ci_approval_status := Plain ''y''\<rparr>) content_items) (content_repo s1) of
             (Inl err, repo') \<Rightarrow>
               (Some (WorkflowError (''Story generation failed: '' @ error_str err)),
                s1\<lparr>content_repo := repo'\<rparr>)
           | (Inr saved_items, repo') \<Rightarrow>
               (case generate_images_for_content e saved_items (s1\<lparr>content_repo := repo'\<rparr>) of
                  (items', s2) \<Rightarrow> (None, s2))))"

definition protected_work ::
  "workflow_env \<Rightarrow> location_data option \<Rightarrow> int \<Rightarrow> int \<Rightarrow> work_state
     \<Rightarrow> app_error option \<times> work_state" where
  \<comment> \<open>the body of the inner \<^verbatim>\<open>try\<close>; \<open>None\<close> is its \<^verbatim>\<open>return True\<close>\<close>
  "protected_work e given_location post_count story_count s =
     (let s1 = s\<lparr>notifications := notifications s
                    @ [ProcessingUpdate ''Content Generation'' ''started'']\<rparr>
      in case (case given_location of Some l \<Rightarrow> Inr l | None \<Rightarrow> get_current_location e) of
           Inl err \<Rightarrow> (Some err, s1)
         | Inr loc \<Rightarrow>
             (case get_non_posted_content_counts (wlib e) (content_repo s1) of
                (content_counts, repo') \<Rightarrow>
                  (case (if posts content_counts < max_non_posted_instagram_posts e
                         then generate_posts e loc post_count (s1\<lparr>content_repo := repo'\<rparr>)
                         else (None, s1\<lparr>content_repo := repo'\<rparr>)) of
                     (Some err, s2) \<Rightarrow> (Some err, s2)
                   | (None, s2) \<Rightarrow>
                       (case (if stories content_counts < max_non_posted_stories e
                              then generate_stories e loc story_count s2
                              else (None, s2)) of
                          (Some err, s3) \<Rightarrow> (Some err, s3)
                        | (None, s3) \<Rightarrow>
                            (None, s3\<lparr>notifications := notifications s3
                                       @ [ProcessingUpdate ''Content Generation'' ''completed'']\<rparr>)))))"

definition workflow_failed :: "app_error \<Rightarrow> app_state \<Rightarrow> bool \<times> app_state" where
  \<comment> \<open>the outer \<^verbatim>\<open>except Exception\<close> clause\<close>
  "workflow_failed err s =
     (False, s\<lparr>work := (work s)\<lparr>notifications := notifications (work s)
        @ [ErrorNotification (''Content generation failed: '' @ error_str err)]\<rparr>\<rparr>)"

definition run_full_content_generation ::
  "workflow_env \<Rightarrow> location_data option \<Rightarrow> int \<Rightarrow> int \<Rightarrow> app_state \<Rightarrow> bool \<times> app_state" where
  "run_full_content_generation e given_location post_count story_count s =
     (if is_process_running e s then (True, s)
      else case set_process_running e True s of
             (Some err, s1) \<Rightarrow> workflow_failed err s1
           | (None, s1) \<Rightarrow>
               (case protected_work e given_location post_count story_count (work s1) of
                  (result, w) \<Rightarrow>
                    \<comment> \<open>\<^verbatim>\<open>finally\<close>: an exception of the release replaces the result\<close>
                    (case set_process_running e False (s1\<lparr>work := w\<rparr>) of
                       (Some err, s2) \<Rightarrow> workflow_failed err s2
                     | (None, s2) \<Rightarrow>
                         (case result of
                            Some err \<Rightarrow> workflow_failed err s2
                          | None \<Rightarrow> (True, s2)))))"

section \<open>The entry point of \<^verbatim>\<open>automation.py\<close>\<close>

text \<open>
  The script reads the flag file, leaves with \<^verbatim>\<open>exit()\<close> when it holds
  \<^verbatim>\<open>yep\<close>, and otherwise writes \<^verbatim>\<open>yep\<close>, runs
  \<^verbatim>\<open>generate_posts_and_caption\<close> and writes \<^verbatim>\<open>nope\<close>.  The generation is a
  parameter: \<open>None\<close> when it returns, \<open>Some e\<close> when it is left by an exception or by
  its own \<^verbatim>\<open>exit()\<close> (which it calls when the image service answers with an error
  status, and which no \<^verbatim>\<open>except Exception\<close> catches).
\<close>

datatype script_end = Finished | Exited | Uncaught string

record script_state =
  is_running_file :: string
  sent :: "string list"
  generation_runs :: nat

definition automation_main :: "string option \<Rightarrow> script_state \<Rightarrow> script_end \<times> script_state" where
  "automation_main generation s =
     (if str_strip (is_running_file s) = ''yep'' then (Exited, s)
      else
        let s1 = s\<lparr>sent := sent s @ [''Running image and caption generation...''],
                   is_running_file := ''yep''\<rparr>;
            s2 = s1\<lparr>generation_runs := Suc (generation_runs s1)\<rparr>
        in case generation of
             Some e \<Rightarrow> (Uncaught e, s2)
           | None \<Rightarrow>
               (Finished, s2\<lparr>sent := sent s2 @ [''Stopping image and caption generation''],
                             is_running_file := ''nope''\<rparr>))"

section \<open>Example values\<close>

definition example_lib :: lib where
  "example_lib =
     \<lparr>parse_uuid = (\<lambda>s. Some s), strptime = (\<lambda>fmt s. Some s), utcnow = 1000,
      utcnow_text = ''01/05/2023 10:00:00''\<rparr>"

definition example_item :: content_item where
  \<comment> \<open>an item as \<^verbatim>\<open>generate_content_batch\<close> builds it, with index 0\<close>
  "example_item =
     \<lparr>ci_index = 0, ci_content_type = validated content_type_value POST,
      ci_group_id = ''g-1'',
      ci_prompt = Some ''a portrait at the Louvre'', ci_caption = None, ci_image = None,
      ci_location = \<lparr>loc_name = ''Paris'', loc_country = Some ''France''\<rparr>,
      ci_approval_status = Member PENDING, ci_posting_status = Member NOT_POSTED,
      ci_generated_at = None, ci_posted_at = None\<rparr>"

definition example_sheet_row :: sheet_row where
  \<comment> \<open>a row of the sheet with index 1\<close>
  "example_sheet_row =
     \<lparr>c_index = Some 1, c_type = ''posts'', c_prompt = ''a portrait at the Louvre'',
      c_location = ''Paris, France'', c_group_id = ''g-0'', c_image = [], c_generated_on = [],
      c_caption = [], c_approved = [], c_posted_on_instagram = [], c_hyperlink_image = []\<rparr>"

definition unreachable_store :: "sheet_row list \<Rightarrow> repository" where
  \<comment> \<open>a repository with an empty cache whose sheet holds \<open>rows\<close> and cannot be read\<close>
  "unreachable_store rows =
     \<lparr>client = \<lparr>body = rows, get_all_records_error = Some ''503 Service Unavailable'',
                 append_rows_error = None, update_cell_error = None\<rparr>,
      cache = None, cache_timestamp = None\<rparr>"

definition example_env :: workflow_env where
  "example_env =
     \<lparr>wlib = example_lib,
      generate_content_batch =
        (\<lambda>ct loc n. Inr [example_item\<lparr>ci_content_type := validated content_type_value ct\<rparr>]),
      generate_image_for_content = (\<lambda>item. Inr \<lparr>img_url = Some ''https://drive/x.png''\<rparr>),
      generate_caption = (\<lambda>item background. Inl ''rate limited''),
      get_current_location = Inr \<lparr>loc_name = ''Paris'', loc_country = Some ''France''\<rparr>,
      max_non_posted_instagram_posts = 5,
      max_non_posted_stories = 5,
      lock_read_fails = False,
      lock_write_fails = (\<lambda>status. False)\<rparr>"

definition example_state :: "string option \<Rightarrow> repository \<Rightarrow> app_state" where
  "example_state flag r =
     \<lparr>running_lock_file = flag,
      work = \<lparr>content_repo = r, notifications = [], capability_calls = []\<rparr>\<rparr>"

section \<open>Properties of the posting script\<close>

subsection \<open>Location tag\<close>

lemma replace_from_skip: "replace_from old new k cs = replace_from old new 0 (drop k cs)"
proof (induction cs arbitrary: k)
  case Nil
  then show ?case by simp
next
  case (Cons c cs)
  then show ?case by (cases k) simp_all
qed

lemma replace_from_last_occurrence:
  assumes "p \<noteq> []" "find_from p k (pre @ p) = int (k + length pre)"
  shows "replace_from p [] 0 (pre @ p) = pre"
  using assms
proof (induction pre arbitrary: k)
  case Nil
  then obtain c cs where p: "p = c # cs" by (cases p) auto
  have "replace_from p [] (length cs) cs = []"
    by (subst replace_from_skip) simp
  then show ?case by (simp add: p)
next
  case (Cons a pre)
  from Cons.prems(2) have np: "\<not> prefix p (a # pre @ p)"
    by (auto split: if_splits)
  with Cons.prems(2) have "find_from p (Suc k) (pre @ p) = int (Suc k + length pre)"
    by simp
  from Cons.IH[OF Cons.prems(1) this] np show ?case by simp
qed

text \<open>
  Claim C4, as stated, fails: the script removes \<^verbatim>\<open>","\<close> followed by the current
  location, without a space, so the stored location \<^verbatim>\<open>"Kyoto, Paris"\<close> with the
  current location \<^verbatim>\<open>"Paris"\<close> is passed on unchanged and is not \<^verbatim>\<open>"Kyoto"\<close>.
\<close>

theorem location_tag_keeps_comma_space_suffix:
  "location_tag ''Paris'' ''Kyoto, Paris'' = ''Kyoto, Paris''
   \<and> location_tag ''Paris'' ''Kyoto, Paris'' \<noteq> ''Kyoto''"
  by code_simp

lemma location_tag_of_stored_location:
  assumes "str_find (stored_location place main) ('','' @ main) = int (length place)"
  shows "location_tag main (stored_location place main) = str_strip place"
proof -
  have "replace_from ('','' @ main) [] 0 (place @ '','' @ main) = place"
    using assms replace_from_last_occurrence[of "'','' @ main" 0 place]
    by (simp add: str_find_def stored_location_def)
  then show ?thesis
    by (simp add: location_tag_def str_replace_def stored_location_def)
qed

lemma replace_from_no_occurrence:
  "find_from p k t < 0 \<Longrightarrow> replace_from p new 0 t = t"
proof (induction t arbitrary: k)
  case Nil
  then show ?case by simp
next
  case (Cons a t)
  from Cons.prems have np: "\<not> prefix p (a # t)" and "find_from p (Suc k) t < 0"
    by (auto split: if_splits)
  with Cons.IH[of "Suc k"] show ?case by simp
qed

lemma location_tag_without_occurrence:
  assumes "str_find loc ('','' @ main) < 0"
  shows "location_tag main loc = str_strip loc"
  using assms replace_from_no_occurrence[of "'','' @ main" 0 loc "[]"]
  by (simp add: location_tag_def str_replace_def str_find_def)

subsection \<open>What the scan accumulates\<close>

lemma accumulate_fields [simp]:
  "group_id (accumulate m i r st) = (if group_id st = [] then r_group_id r else group_id st)"
  "indexes (accumulate m i r st) = indexes st @ [i]"
  "image_urls (accumulate m i r st) = image_urls st @ [image_url_of (r_image r)]"
  "location (accumulate m i r st) = location_tag m (r_location r)"
  by (simp_all add: accumulate_def)

lemma scan_locked:
  "group_id st \<noteq> [] \<Longrightarrow>
     group_id (scan m content st) = group_id st
     \<and> indexes (scan m content st)
         = indexes st @ List.map_filter r_index (selected_rows (group_id st) content)
     \<and> image_urls (scan m content st)
         = image_urls st @ map (image_url_of \<circ> r_image) (selected_rows (group_id st) content)
     \<and> location (scan m content st)
         = (if selected_rows (group_id st) content = [] then location st
            else location_tag m (r_location (last (selected_rows (group_id st) content))))"
proof (induction content arbitrary: st)
  case Nil
  then show ?case by (simp add: map_filter_simps)
next
  case (Cons r content)
  show ?case
  proof (cases "r_index r")
    case None
    then show ?thesis by (simp add: map_filter_simps)
  next
    case (Some i)
    show ?thesis
    proof (cases "ready_post r \<and> r_group_id r = group_id st")
      case True
      have g: "group_id (accumulate m i r st) = group_id st"
        using Cons.prems by simp
      then have g': "group_id (accumulate m i r st) \<noteq> []" using Cons.prems by simp
      from True Some Cons.prems Cons.IH[OF g'] show ?thesis
        by (simp add: ready_post_def map_filter_simps g del: accumulate_fields(1))
    next
      case False
      with Some Cons.prems Cons.IH[of st] show ?thesis
        by (auto simp add: ready_post_def map_filter_simps)
    qed
  qed
qed

lemma selected_rows_no_group: "selected_rows [] content = []"
  by (induction content) (auto simp: ready_post_def)

lemma scan_unlocked:
  "group_id st = [] \<Longrightarrow>
     indexes (scan m content st)
       = indexes st @ List.map_filter r_index (selected_rows (group_id (scan m content st)) content)
     \<and> image_urls (scan m content st)
         = image_urls st @ map (image_url_of \<circ> r_image) (selected_rows (group_id (scan m content st)) content)
     \<and> location (scan m content st)
         = (if selected_rows (group_id (scan m content st)) content = [] then location st
            else location_tag m (r_location (last (selected_rows (group_id (scan m content st)) content))))"
proof (induction content arbitrary: st)
  case Nil
  then show ?case by (simp add: map_filter_simps)
next
  case (Cons r content)
  show ?case
  proof (cases "r_index r")
    case None
    then show ?thesis by (simp add: map_filter_simps)
  next
    case (Some i)
    show ?thesis
    proof (cases "ready_post r")
      case True
      then have g': "group_id (accumulate m i r st) \<noteq> []"
        using Cons.prems by (simp add: ready_post_def)
      have g: "group_id (accumulate m i r st) = r_group_id r"
        using Cons.prems by simp
      from True Some Cons.prems scan_locked[OF g', of m content] show ?thesis
        by (simp add: ready_post_def map_filter_simps g del: accumulate_fields(1))
    next
      case False
      with Some Cons.prems Cons.IH[of st] show ?thesis
        by (auto simp add: ready_post_def map_filter_simps)
    qed
  qed
qed

text \<open>
  Claim C2, as stated, fails: a row of another group does not end the scan.  With a
  ready row of group G1, then one of group G2, then another of group G1, the third row,
  which comes after the first row of a different group, is accumulated and its image is
  posted.
\<close>

theorem scan_goes_on_after_other_group:
  "indexes (scan ''Paris''
      [ready_row 1 ''G1'' ''u1'' ''Hello #x'', ready_row 2 ''G2'' ''u2'' ''Other #y'',
       ready_row 3 ''G1'' ''u3'' ''-''] scan_init) = [1, 3]
   \<and> image_urls (scan ''Paris''
      [ready_row 1 ''G1'' ''u1'' ''Hello #x'', ready_row 2 ''G2'' ''u2'' ''Other #y'',
       ready_row 3 ''G1'' ''u3'' ''-''] scan_init) = [''u1'', ''u3'']"
  by code_simp

lemma slice_to_is_take: "0 \<le> b \<Longrightarrow> slice_to b xs = take (nat b) xs"
  by (simp add: slice_to_def slice_index_def min_def)

lemma poster_calls_of_run:
  assumes "st = scan (main_location e) (records (w_sheet w)) scan_init"
  shows "poster_calls (snd (main_posting e w))
     = poster_calls w
       @ (if image_urls st = [] then []
          else [(slice_to 6 (image_urls st), caption st, location st)])"
  using assms
  by (simp add: main_posting_def scheduled_posts_on_instagram_def Let_def
        split: option.splits prod.splits)

lemma selected_rows_are_ready:
  "\<forall>r \<in> set (selected_rows g content). ready_post r \<and> r_group_id r = g \<and> r_index r \<noteq> None"
  by (induction content) auto

text \<open>
  Claim C2, amended: once a group is active, a row of any other group is skipped and
  never accumulated, and the scan goes on, so what is accumulated is exactly the ready
  rows of the active group that stand in front of the first row with an empty index
  (also those behind a row of another group).  If there is such a row, the poster is
  called once, with the images of the first six accumulated rows; otherwise it is not
  called.  In the concrete case of two ready rows of group G1 followed by a ready row of
  group G2, the poster is called once with the two images of G1, and the row of G2 is
  left as it was.
\<close>

theorem scan_accumulates_active_group_only:
  assumes "st = scan (main_location e) (records (w_sheet w)) scan_init"
    and "sel = selected_rows (group_id st) (records (w_sheet w))"
  shows "indexes st = List.map_filter r_index sel
   \<and> image_urls st = map (image_url_of \<circ> r_image) sel
   \<and> (\<forall>r \<in> set sel. ready_post r \<and> r_group_id r = group_id st)
   \<and> poster_calls (snd (main_posting e w))
       = poster_calls w
         @ (if sel = [] then []
            else [(take 6 (map (image_url_of \<circ> r_image) sel), caption st, location st)])
   \<and> map fst (poster_calls (snd (main_posting
        \<lparr>main_location = ''Paris'', now = ''2023-05-01 10:00'', poster = (\<lambda>urls c l. None)\<rparr>
        \<lparr>w_sheet = \<lparr>posted_header = ''posted_on_instagram'',
                    records = [ready_row 1 ''G1'' ''u1'' ''Hello #x'', ready_row 2 ''G1'' ''u2'' ''-'',
                               ready_row 3 ''G2'' ''u3'' ''Other #y'']\<rparr>,
         messages = [], poster_calls = []\<rparr>))) = [[''u1'', ''u2'']]
   \<and> drop 2 (records (w_sheet (snd (main_posting
        \<lparr>main_location = ''Paris'', now = ''2023-05-01 10:00'', poster = (\<lambda>urls c l. None)\<rparr>
        \<lparr>w_sheet = \<lparr>posted_header = ''posted_on_instagram'',
                    records = [ready_row 1 ''G1'' ''u1'' ''Hello #x'', ready_row 2 ''G1'' ''u2'' ''-'',
                               ready_row 3 ''G2'' ''u3'' ''Other #y'']\<rparr>,
         messages = [], poster_calls = []\<rparr>))))
       = [ready_row 3 ''G2'' ''u3'' ''Other #y'']"
proof -
  have un: "indexes st = List.map_filter r_index sel
     \<and> image_urls st = map (image_url_of \<circ> r_image) sel"
    using scan_unlocked[of scan_init "main_location e" "records (w_sheet w)"] assms
    by (simp add: scan_init_def)
  have rdy: "\<forall>r \<in> set sel. ready_post r \<and> r_group_id r = group_id st"
    using selected_rows_are_ready[of "group_id st" "records (w_sheet w)"] assms(2) by simp
  have calls: "poster_calls (snd (main_posting e w))
       = poster_calls w
         @ (if sel = [] then []
            else [(take 6 (map (image_url_of \<circ> r_image) sel), caption st, location st)])"
    using poster_calls_of_run[OF assms(1)] un slice_to_is_take[of 6 "image_urls st"]
    by simp
  have c1: "map fst (poster_calls (snd (main_posting
        \<lparr>main_location = ''Paris'', now = ''2023-05-01 10:00'', poster = (\<lambda>urls c l. None)\<rparr>
        \<lparr>w_sheet = \<lparr>posted_header = ''posted_on_instagram'',
                    records = [ready_row 1 ''G1'' ''u1'' ''Hello #x'', ready_row 2 ''G1'' ''u2'' ''-'',
                               ready_row 3 ''G2'' ''u3'' ''Other #y'']\<rparr>,
         messages = [], poster_calls = []\<rparr>))) = [[''u1'', ''u2'']]"
    by code_simp
  have c2: "drop 2 (records (w_sheet (snd (main_posting
        \<lparr>main_location = ''Paris'', now = ''2023-05-01 10:00'', poster = (\<lambda>urls c l. None)\<rparr>
        \<lparr>w_sheet = \<lparr>posted_header = ''posted_on_instagram'',
                    records = [ready_row 1 ''G1'' ''u1'' ''Hello #x'', ready_row 2 ''G1'' ''u2'' ''-'',
                               ready_row 3 ''G2'' ''u3'' ''Other #y'']\<rparr>,
         messages = [], poster_calls = []\<rparr>))))
       = [ready_row 3 ''G2'' ''u3'' ''Other #y'']"
    by code_simp
  from un rdy calls c1 c2 show ?thesis by blast
qed

theorem scan_accumulates_active_group_only_witness:
  "map fst (poster_calls (snd (main_posting
      \<lparr>main_location = ''Paris'', now = ''2023-05-01 10:00'', poster = (\<lambda>urls c l. None)\<rparr>
      \<lparr>w_sheet = \<lparr>posted_header = ''posted_on_instagram'',
                  records = [ready_row 1 ''G1'' ''u1'' ''-'', ready_row 2 ''G2'' ''x'' ''-'',
                             ready_row 3 ''G1'' ''u2'' ''-'', ready_row 4 ''G1'' ''u3'' ''-'',
                             ready_row 5 ''G1'' ''u4'' ''-'', ready_row 6 ''G1'' ''u5'' ''-'',
                             ready_row 7 ''G1'' ''u6'' ''-'', ready_row 8 ''G1'' ''u7'' ''-'']\<rparr>,
       messages = [], poster_calls = []\<rparr>)))
   = [[''u1'', ''u2'', ''u3'', ''u4'', ''u5'', ''u6'']]"
proof -
  let ?rs = "[ready_row 1 ''G1'' ''u1'' ''-'', ready_row 2 ''G2'' ''x'' ''-'',
              ready_row 3 ''G1'' ''u2'' ''-'', ready_row 4 ''G1'' ''u3'' ''-'',
              ready_row 5 ''G1'' ''u4'' ''-'', ready_row 6 ''G1'' ''u5'' ''-'',
              ready_row 7 ''G1'' ''u6'' ''-'', ready_row 8 ''G1'' ''u7'' ''-'']"
  let ?e = "\<lparr>main_location = ''Paris'', now = ''2023-05-01 10:00'', poster = (\<lambda>urls c l. None)\<rparr>"
  let ?w = "\<lparr>w_sheet = \<lparr>posted_header = ''posted_on_instagram'', records = ?rs\<rparr>,
             messages = [], poster_calls = []\<rparr>"
  let ?st = "scan (main_location ?e) (records (w_sheet ?w)) scan_init"
  let ?sel = "selected_rows (group_id ?st) (records (w_sheet ?w))"
  have calls: "poster_calls (snd (main_posting ?e ?w))
       = poster_calls ?w
         @ (if ?sel = [] then []
            else [(take 6 (map (image_url_of \<circ> r_image) ?sel), caption ?st, location ?st)])"
    using scan_accumulates_active_group_only[of ?st ?e ?w ?sel, OF refl refl] by blast
  have rhs: "map fst (poster_calls ?w
         @ (if ?sel = [] then []
            else [(take 6 (map (image_url_of \<circ> r_image) ?sel), caption ?st, location ?st)]))
       = [[''u1'', ''u2'', ''u3'', ''u4'', ''u5'', ''u6'']]"
    by code_simp
  from arg_cong[OF calls, of "map fst"] rhs show ?thesis by (rule trans)
qed

subsection \<open>The location passed to the poster\<close>

text \<open>
  Claim C4, amended: the location passed to the poster is computed from the stored
  location of the last accumulated row, by replacing the text
  \<^verbatim>\<open>",<currentLocation>"\<close> (a comma followed at once by the current location, as the
  generator writes it) by nothing and stripping white space at both ends.  So when that
  stored location is a place followed by \<^verbatim>\<open>",<currentLocation>"\<close> and this trailing
  text is its first occurrence there, the poster receives the stripped place, and when
  the text does not occur the poster receives the stripped stored location.  In
  particular \<^verbatim>\<open>"Kyoto,Paris"\<close> with the current location \<^verbatim>\<open>"Paris"\<close> reaches the
  poster as \<^verbatim>\<open>"Kyoto"\<close>, and \<^verbatim>\<open>"Kyoto, Paris"\<close> reaches it unchanged.
\<close>

theorem poster_location_strips_comma_suffix:
  assumes "st = scan (main_location e) (records (w_sheet w)) scan_init"
    and "sel = selected_rows (group_id st) (records (w_sheet w))"
    and "sel \<noteq> []"
  shows "poster_calls (snd (main_posting e w))
       = poster_calls w
         @ [(slice_to 6 (image_urls st), caption st,
             location_tag (main_location e) (r_location (last sel)))]
    \<and> (\<forall>place. r_location (last sel) = stored_location place (main_location e)
           \<and> str_find (stored_location place (main_location e)) ('','' @ main_location e)
               = int (length place)
         \<longrightarrow> location_tag (main_location e) (r_location (last sel)) = str_strip place)
    \<and> (str_find (r_location (last sel)) ('','' @ main_location e) < 0
         \<longrightarrow> location_tag (main_location e) (r_location (last sel))
             = str_strip (r_location (last sel)))"
proof -
  have un: "image_urls st = map (image_url_of \<circ> r_image) sel
     \<and> location st = location_tag (main_location e) (r_location (last sel))"
    using scan_unlocked[of scan_init "main_location e" "records (w_sheet w)"] assms
    by (simp add: scan_init_def)
  then have "image_urls st \<noteq> []" using assms(3) by simp
  with poster_calls_of_run[OF assms(1)] un
  have calls: "poster_calls (snd (main_posting e w))
       = poster_calls w
         @ [(slice_to 6 (image_urls st), caption st,
             location_tag (main_location e) (r_location (last sel)))]"
    by simp
  have suffix: "\<forall>place. r_location (last sel) = stored_location place (main_location e)
           \<and> str_find (stored_location place (main_location e)) ('','' @ main_location e)
               = int (length place)
         \<longrightarrow> location_tag (main_location e) (r_location (last sel)) = str_strip place"
    using location_tag_of_stored_location by auto
  have none: "str_find (r_location (last sel)) ('','' @ main_location e) < 0
         \<longrightarrow> location_tag (main_location e) (r_location (last sel))
             = str_strip (r_location (last sel))"
    using location_tag_without_occurrence by blast
  from calls suffix none show ?thesis by blast
qed

theorem poster_location_strips_comma_suffix_witness:
  "map (\<lambda>c. snd (snd c)) (poster_calls (snd (main_posting
      \<lparr>main_location = ''Paris'', now = ''2023-05-01 10:00'', poster = (\<lambda>urls c l. None)\<rparr>
      \<lparr>w_sheet = \<lparr>posted_header = ''posted_on_instagram'',
                  records = [(ready_row 1 ''G1'' ''u1'' ''Hello #x'')\<lparr>r_location := ''Kyoto,Paris''\<rparr>]\<rparr>,
       messages = [], poster_calls = []\<rparr>)))
   = [''Kyoto'']
   \<and> map (\<lambda>c. snd (snd c)) (poster_calls (snd (main_posting
      \<lparr>main_location = ''Paris'', now = ''2023-05-01 10:00'', poster = (\<lambda>urls c l. None)\<rparr>
      \<lparr>w_sheet = \<lparr>posted_header = ''posted_on_instagram'',
                  records = [(ready_row 1 ''G1'' ''u1'' ''Hello #x'')\<lparr>r_location := ''Kyoto, Paris''\<rparr>]\<rparr>,
       messages = [], poster_calls = []\<rparr>)))
   = [''Kyoto, Paris'']"
proof -
  let ?e = "\<lparr>main_location = ''Paris'', now = ''2023-05-01 10:00'', poster = (\<lambda>urls c l. None)\<rparr>"
  let ?r1 = "(ready_row 1 ''G1'' ''u1'' ''Hello #x'')\<lparr>r_location := ''Kyoto,Paris''\<rparr>"
  let ?r2 = "(ready_row 1 ''G1'' ''u1'' ''Hello #x'')\<lparr>r_location := ''Kyoto, Paris''\<rparr>"
  let ?w1 = "\<lparr>w_sheet = \<lparr>posted_header = ''posted_on_instagram'', records = [?r1]\<rparr>,
              messages = [], poster_calls = []\<rparr>"
  let ?w2 = "\<lparr>w_sheet = \<lparr>posted_header = ''posted_on_instagram'', records = [?r2]\<rparr>,
              messages = [], poster_calls = []\<rparr>"
  let ?st1 = "scan (main_location ?e) (records (w_sheet ?w1)) scan_init"
  let ?st2 = "scan (main_location ?e) (records (w_sheet ?w2)) scan_init"
  let ?sel1 = "selected_rows (group_id ?st1) (records (w_sheet ?w1))"
  let ?sel2 = "selected_rows (group_id ?st2) (records (w_sheet ?w2))"
  have ne1: "?sel1 \<noteq> []" by code_simp
  have ne2: "?sel2 \<noteq> []" by code_simp
  note th1 = poster_location_strips_comma_suffix[of ?st1 ?e ?w1 ?sel1, OF refl refl ne1]
  note th2 = poster_location_strips_comma_suffix[of ?st2 ?e ?w2 ?sel2, OF refl refl ne2]
  have h1: "r_location (last ?sel1) = stored_location ''Kyoto'' (main_location ?e)
           \<and> str_find (stored_location ''Kyoto'' (main_location ?e)) ('','' @ main_location ?e)
               = int (length ''Kyoto'')"
    by code_simp
  have h2: "str_find (r_location (last ?sel2)) ('','' @ main_location ?e) < 0"
    by code_simp
  from th1 h1 have t1: "location_tag (main_location ?e) (r_location (last ?sel1)) = str_strip ''Kyoto''"
    by blast
  from th2 h2 have t2: "location_tag (main_location ?e) (r_location (last ?sel2))
      = str_strip (r_location (last ?sel2))"
    by blast
  from th1 have c1: "poster_calls (snd (main_posting ?e ?w1))
       = poster_calls ?w1
         @ [(slice_to 6 (image_urls ?st1), caption ?st1,
             location_tag (main_location ?e) (r_location (last ?sel1)))]"
    by blast
  from th2 have c2: "poster_calls (snd (main_posting ?e ?w2))
       = poster_calls ?w2
         @ [(slice_to 6 (image_urls ?st2), caption ?st2,
             location_tag (main_location ?e) (r_location (last ?sel2)))]"
    by blast
  have r1: "map (\<lambda>c. snd (snd c)) (poster_calls ?w1
         @ [(slice_to 6 (image_urls ?st1), caption ?st1, str_strip ''Kyoto'')]) = [''Kyoto'']"
    by code_simp
  have r2: "map (\<lambda>c. snd (snd c)) (poster_calls ?w2
         @ [(slice_to 6 (image_urls ?st2), caption ?st2, str_strip (r_location (last ?sel2)))])
       = [''Kyoto, Paris'']"
    by code_simp
  have p1: "map (\<lambda>c. snd (snd c)) (poster_calls (snd (main_posting ?e ?w1))) = [''Kyoto'']"
    using arg_cong[OF c1, of "map (\<lambda>c. snd (snd c))"] r1 unfolding t1 by (rule trans)
  have p2: "map (\<lambda>c. snd (snd c)) (poster_calls (snd (main_posting ?e ?w2))) = [''Kyoto, Paris'']"
    using arg_cong[OF c2, of "map (\<lambda>c. snd (snd c))"] r2 unfolding t2 by (rule trans)
  from p1 p2 show ?thesis by (rule conjI)
qed

subsection \<open>The image cap and the rows marked after a post\<close>

lemma length_slice_to_six: "length (slice_to 6 xs) \<le> 6"
  by (simp add: slice_to_def slice_index_def)

lemma poster_gets_at_most_six_images:
  "poster_calls (snd (scheduled_posts_on_instagram e w)) = poster_calls w
   \<or> (\<exists>urls c l. poster_calls (snd (scheduled_posts_on_instagram e w))
                    = poster_calls w @ [(urls, c, l)] \<and> length urls \<le> 6)"
  by (auto simp add: scheduled_posts_on_instagram_def Let_def length_slice_to_six
           split: option.splits prod.splits)

text \<open>
  Claim C3 against the code.  At most six image addresses reach the poster (lemma
  above), but the rows that are marked are not the rows of those images when the sheet
  is numbered as the generator numbers it.  \<^verbatim>\<open>v1_generate_prompts\<close> gives the first
  record of a sheet the index 0, and \<^verbatim>\<open>generate_posts_and_caption\<close> writes the
  image of the record with index \<open>i\<close> to sheet row \<open>i + 2\<close>; the posting script
  writes the time stamp of that record to sheet row \<open>i + 1\<close>.  For a freshly generated
  group of two rows, both images are posted, the time stamp of index 0 overwrites the
  header cell, the time stamp of index 1 lands in the row of index 0, and the row of
  index 1 stays unmarked.
\<close>

theorem posted_mark_lands_one_row_above:
  "map r_index (records (v1_generate_prompts ''Paris'' ''G1'' [''Louvre'', ''Seine''] None))
     = [Some 0, Some 1]
   \<and> image_cell_row 1 = 3 \<and> posted_cell_row 1 = 2
   \<and> map fst (poster_calls (snd (main_posting
        \<lparr>main_location = ''Paris'', now = ''2023-05-01 10:00'', poster = (\<lambda>urls c l. None)\<rparr>
        \<lparr>w_sheet = \<lparr>posted_header = ''posted_on_instagram'',
                    records = map2 (\<lambda>u r. fill_and_approve u ''Hello #x'' r) [''u0'', ''u1'']
                      (records (v1_generate_prompts ''Paris'' ''G1'' [''Louvre'', ''Seine''] None))\<rparr>,
         messages = [], poster_calls = []\<rparr>))) = [[''u0'', ''u1'']]
   \<and> posted_header (w_sheet (snd (main_posting
        \<lparr>main_location = ''Paris'', now = ''2023-05-01 10:00'', poster = (\<lambda>urls c l. None)\<rparr>
        \<lparr>w_sheet = \<lparr>posted_header = ''posted_on_instagram'',
                    records = map2 (\<lambda>u r. fill_and_approve u ''Hello #x'' r) [''u0'', ''u1'']
                      (records (v1_generate_prompts ''Paris'' ''G1'' [''Louvre'', ''Seine''] None))\<rparr>,
         messages = [], poster_calls = []\<rparr>))) = ''2023-05-01 10:00''
   \<and> map (\<lambda>r. (r_index r, r_posted_on_instagram r)) (records (w_sheet (snd (main_posting
        \<lparr>main_location = ''Paris'', now = ''2023-05-01 10:00'', poster = (\<lambda>urls c l. None)\<rparr>
        \<lparr>w_sheet = \<lparr>posted_header = ''posted_on_instagram'',
                    records = map2 (\<lambda>u r. fill_and_approve u ''Hello #x'' r) [''u0'', ''u1'']
                      (records (v1_generate_prompts ''Paris'' ''G1'' [''Louvre'', ''Seine''] None))\<rparr>,
         messages = [], poster_calls = []\<rparr>))))
       = [(Some 0, ''2023-05-01 10:00''), (Some 1, [])]"
  by code_simp

subsection \<open>Caption hashtags\<close>

text \<open>
  Claim C1 against the code.  The script computes the number of boilerplate hashtags to
  remove, but then keeps the slice \<^verbatim>\<open>[1:caption_to_remove_from_raw]\<close> of the
  boilerplate instead of dropping that many from its front.  The boilerplate has 17
  hashtags.  With 14 hashtags in the row caption one hashtag is over the cap of 30: the
  whole boilerplate is dropped and the caption has 14 hashtags, not 30.  With 23
  hashtags in the row caption the caption has 32 hashtags, more than the cap.  With 10
  extracted hashtags and a boilerplate of 25 the same two statements keep hashtags 2 to 5
  of the boilerplate, not the last 20.
\<close>

theorem caption_hashtags_not_capped:
  "post_caption ''Hi #a #b #c #d #e #f #g #h #i #j #k #l #m #n''
     = ''Hi '' @ [CHR 0x0A, CHR 0x0A, CHR 0x0A] @ ''#a #b #c #d #e #f #g #h #i #j #k #l #m #n''
       @ [CHR 0x0A, CHR 0x0A, CHR 0x0A] @ mentions
   \<and> str_count (post_caption ''Hi #a #b #c #d #e #f #g #h #i #j #k #l #m #n'') ''#'' = 14
   \<and> str_count (post_caption
        ''Hi #a #b #c #d #e #f #g #h #i #j #k #l #m #n #o #p #q #r #s #t #u #v #w'') ''#'' = 32
   \<and> trim_raw_caption
        ''#t1 #t2 #t3 #t4 #t5 #t6 #t7 #t8 #t9 #t10 #t11 #t12 #t13 #t14 #t15 #t16 #t17 #t18 #t19 #t20 #t21 #t22 #t23 #t24 #t25''
        (10 + 25 - 30) = ''#t2 #t3 #t4 #t5''"
  by code_simp

subsection \<open>A failing post\<close>

text \<open>
  Claim C5: when the call of the poster raises, no cell of the sheet is written (every
  row keeps its empty \<^verbatim>\<open>posted_on_instagram\<close> cell), one message that carries the
  text of the exception is sent, and the \<^verbatim>\<open>try/except\<close> block of the entry point
  completes.  The sheet is written only on the branch behind a poster call that returned.
\<close>

theorem failed_post_marks_nothing:
  assumes "st = scan (main_location e) (records (w_sheet w)) scan_init"
    and "image_urls st \<noteq> []"
    and "poster e (slice_to 6 (image_urls st)) (caption st) (location st) = Some err"
  shows "fst (main_posting e w) = Completed
    \<and> w_sheet (snd (main_posting e w)) = w_sheet w
    \<and> messages (snd (main_posting e w))
        = messages w @ [''Error while posting on instagram'' @ [CHR 0x0A] @ '' '' @ err @ '' ''
                          @ [CHR 0x0A] @ '' None'']
    \<and> poster_calls (snd (main_posting e w))
        = poster_calls w @ [(slice_to 6 (image_urls st), caption st, location st)]"
  using assms by (simp add: main_posting_def scheduled_posts_on_instagram_def Let_def)

theorem failed_post_marks_nothing_witness:
  "image_urls (scan ''Paris''
      [ready_row 1 ''G1'' ''u1'' ''Hello #x'', ready_row 2 ''G1'' ''u2'' ''-''] scan_init) \<noteq> []
   \<and> w_sheet (snd (main_posting
        \<lparr>main_location = ''Paris'', now = ''2023-05-01 10:00'',
         poster = (\<lambda>urls c l. Some ''no such element'')\<rparr>
        \<lparr>w_sheet = \<lparr>posted_header = ''posted_on_instagram'',
                    records = [ready_row 1 ''G1'' ''u1'' ''Hello #x'', ready_row 2 ''G1'' ''u2'' ''-'']\<rparr>,
         messages = [], poster_calls = []\<rparr>))
     = \<lparr>posted_header = ''posted_on_instagram'',
        records = [ready_row 1 ''G1'' ''u1'' ''Hello #x'', ready_row 2 ''G1'' ''u2'' ''-'']\<rparr>
   \<and> messages (snd (main_posting
        \<lparr>main_location = ''Paris'', now = ''2023-05-01 10:00'',
         poster = (\<lambda>urls c l. Some ''no such element'')\<rparr>
        \<lparr>w_sheet = \<lparr>posted_header = ''posted_on_instagram'',
                    records = [ready_row 1 ''G1'' ''u1'' ''Hello #x'', ready_row 2 ''G1'' ''u2'' ''-'']\<rparr>,
         messages = [], poster_calls = []\<rparr>))
     = [''Error while posting on instagram'' @ [CHR 0x0A] @ '' no such element '' @ [CHR 0x0A]
        @ '' None'']"
proof -
  let ?rs = "[ready_row 1 ''G1'' ''u1'' ''Hello #x'', ready_row 2 ''G1'' ''u2'' ''-'']"
  let ?e = "\<lparr>main_location = ''Paris'', now = ''2023-05-01 10:00'',
         poster = (\<lambda>urls c l. Some ''no such element'')\<rparr>"
  let ?w = "\<lparr>w_sheet = \<lparr>posted_header = ''posted_on_instagram'', records = ?rs\<rparr>,
         messages = [], poster_calls = []\<rparr>"
  have ne: "image_urls (scan ''Paris'' ?rs scan_init) \<noteq> []"
    by code_simp
  have "image_urls (scan (main_location ?e) (records (w_sheet ?w)) scan_init) \<noteq> []"
    using ne by simp
  from failed_post_marks_nothing[OF refl this, of "''no such element''"] ne
  show ?thesis by simp
qed

section \<open>Properties of the OpenAI client\<close>

text \<open>
  Claim C8: a call that keeps failing with the rate limit error is attempted three times,
  with a sleep of 1 second after the first and of 2 seconds after the second failure, and
  the error leaves \<^verbatim>\<open>_make_api_call\<close> only after the third failure; a success at
  the second or third attempt is returned.  A call that fails with the authentication
  error leaves after the first attempt, without a retry and without a backoff sleep.
  Seen from \<^verbatim>\<open>generate_completion\<close> the call ends in an exception in both cases,
  and the only sleep in front of the first attempt is the pacing delay \<open>d\<close> of the
  client.
\<close>

theorem retry_policy:
  "(api_r 0 = Inl RateLimitError \<and> api_r 1 = Inl RateLimitError \<and> api_r 2 = Inl RateLimitError
      \<longrightarrow> make_api_call api_r = (Inl (Library RateLimitError), [1, 2], 3))
   \<and> (api_s 0 = Inl RateLimitError \<and> api_s 1 = Inl RateLimitError \<and> api_s 2 = Inr response
      \<longrightarrow> make_api_call api_s = (Inr (Some response), [1, 2], 3))
   \<and> (api_t 0 = Inl RateLimitError \<and> api_t 1 = Inr response
      \<longrightarrow> make_api_call api_t = (Inr (Some response), [1], 2))
   \<and> (api_a 0 = Inl AuthenticationError
      \<longrightarrow> make_api_call api_a = (Inl (Library AuthenticationError), [], 1))
   \<and> (api_g 0 = Inl AuthenticationError
      \<longrightarrow> isl (fst (generate_completion api_g d))
          \<and> snd (snd (generate_completion api_g d)) = ([d], 1))
   \<and> (api_h 0 = Inl RateLimitError \<and> api_h 1 = Inl RateLimitError \<and> api_h 2 = Inl RateLimitError
      \<longrightarrow> isl (fst (generate_completion api_h d))
          \<and> snd (snd (generate_completion api_h d)) = ([d, 1, 2], 3))"
  by (simp add: make_api_call_def generate_completion_def upt_rec numeral_3_eq_3 numeral_2_eq_2
        raise_OpenAIAuthenticationError_def raise_OpenAIRateLimitError_def)


theorem retry_policy_witness:
  "make_api_call (\<lambda>k. (Inl RateLimitError :: openai_error + string)) = (Inl (Library RateLimitError), [1, 2], 3)
   \<and> make_api_call (\<lambda>k. if k < 2 then Inl RateLimitError else Inr ''ok'') = (Inr (Some ''ok''), [1, 2], 3)
   \<and> make_api_call (\<lambda>k. if k < 1 then Inl RateLimitError else Inr ''ok'') = (Inr (Some ''ok''), [1], 2)
   \<and> make_api_call (\<lambda>k. (Inl AuthenticationError :: openai_error + string)) = (Inl (Library AuthenticationError), [], 1)
   \<and> snd (snd (generate_completion (\<lambda>k. Inl AuthenticationError) 1)) = ([1], 1)
   \<and> snd (snd (generate_completion (\<lambda>k. Inl RateLimitError) 1)) = ([1, 1, 2], 3)"
  using retry_policy[of "\<lambda>k. (Inl RateLimitError :: openai_error + string)"
      "\<lambda>k. if k < 2 then Inl RateLimitError else Inr ''ok''" "''ok''"
      "\<lambda>k. if k < 1 then Inl RateLimitError else Inr ''ok''"
      "\<lambda>k. (Inl AuthenticationError :: openai_error + string)"
      "\<lambda>k. Inl AuthenticationError" 1 "\<lambda>k. Inl RateLimitError"]
  by simp

section \<open>Properties of the content repository\<close>

lemma map_index_assign_indices_aux:
  "map ci_index (map (\<lambda>(i, item). item\<lparr>ci_index := last_index + int i + 1\<rparr>)
                  (enumerate k content_items))
     = map (\<lambda>j. last_index + int j + 1) [k..<k + length content_items]"
proof (induction content_items arbitrary: k)
  case Nil
  then show ?case by simp
next
  case (Cons a content_items)
  have "[k..<k + length (a # content_items)] = k # [Suc k..<Suc k + length content_items]"
    by (simp add: upt_rec)
  with Cons.IH[of "Suc k"] show ?case by simp
qed

lemma assigned_indices:
  "map ci_index (assign_indices last_index content_items)
     = map (\<lambda>j. last_index + int j + 1) [0..<length content_items]"
  using map_index_assign_indices_aux[of last_index 0 content_items]
  by (simp add: assign_indices_def)

lemma get_all_content_read_fails:
  "get_all_records_error (client r) = Some e \<Longrightarrow> \<not> (use_cache \<and> is_cache_valid lb r) \<Longrightarrow>
   get_all_content lb use_cache r
     = (Inl (GoogleSheetsError (''Failed to retrieve content: '' @ e)), r)"
  by (simp add: get_all_content_def client_get_all_records_def)

lemma get_last_index_read_fails:
  "get_all_records_error (client r) = Some e \<Longrightarrow> get_last_index' lb r = (0, r)"
  by (simp add: get_last_index'_def get_all_content_read_fails)

lemma to_sheet_row_of_validated_item:
  "ci_content_type item = Plain t \<Longrightarrow> to_sheet_row item = Inl attribute_error"
  by (simp add: to_sheet_row_def attribute_value_def)

lemma create_content_batch_of_validated_items:
  assumes "content_items = item # others" and "ci_content_type item = Plain t"
  shows "create_content_batch lb content_items r
     = (Inl (GoogleSheetsError (''Failed to create content: '' @ attribute_error)),
        snd (get_last_index' lb r))"
proof -
  obtain last_index r1 where gl: "get_last_index' lb r = (last_index, r1)"
    by (cases "get_last_index' lb r")
  obtain item' others' where ai: "assign_indices last_index content_items = item' # others'"
    and ct: "ci_content_type item' = Plain t"
    using assms by (auto simp add: assign_indices_def enumerate_eq_zip upt_rec)
  have "rows_to_insert (assign_indices last_index content_items) = Inl attribute_error"
    by (simp add: ai to_sheet_row_of_validated_item[OF ct])
  with assms(1) gl show ?thesis
    by (simp add: create_content_batch_def)
qed

text \<open>
  Claim C9 against the code.  The first half holds: when the sheet cannot be read,
  \<^verbatim>\<open>_get_last_index\<close> catches the error and answers 0, and the items are numbered
  from 1.  But the batch is not appended.  Every item the program builds has been
  through the constructor of \<^verbatim>\<open>ContentItem\<close>, so its \<^verbatim>\<open>content_type\<close> is a plain
  \<^verbatim>\<open>str\<close> and \<^verbatim>\<open>self.content_type.value\<close> in \<^verbatim>\<open>to_sheet_row\<close> raises an
  \<^verbatim>\<open>AttributeError\<close> inside the \<^verbatim>\<open>try\<close> of \<^verbatim>\<open>create_content_batch\<close>: the call
  ends in a \<^verbatim>\<open>GoogleSheetsError\<close> that speaks of the attribute, and the sheet keeps the
  rows it had.
\<close>

theorem failed_read_batch_is_not_appended:
  "get_last_index' example_lib (unreachable_store [example_sheet_row])
     = (0, unreachable_store [example_sheet_row])
   \<and> map ci_index (assign_indices 0 [example_item, example_item]) = [1, 2]
   \<and> create_content_batch example_lib [example_item, example_item]
        (unreachable_store [example_sheet_row])
     = (Inl (GoogleSheetsError (''Failed to create content: '' @ attribute_error)),
        unreachable_store [example_sheet_row])
   \<and> body (client (snd (create_content_batch example_lib [example_item, example_item]
        (unreachable_store [example_sheet_row])))) = [example_sheet_row]"
proof -
  have rd: "get_all_records_error (client (unreachable_store [example_sheet_row]))
            = Some ''503 Service Unavailable''"
    by (simp add: unreachable_store_def)
  have gl: "get_last_index' example_lib (unreachable_store [example_sheet_row])
     = (0, unreachable_store [example_sheet_row])"
    using rd by (rule get_last_index_read_fails)
  have idx: "map ci_index (assign_indices 0 [example_item, example_item]) = [1, 2]"
    by (simp add: assigned_indices upt_rec)
  have ct: "ci_content_type example_item = Plain ''posts''"
    by (simp add: example_item_def validated_def)
  have cb: "create_content_batch example_lib [example_item, example_item]
        (unreachable_store [example_sheet_row])
     = (Inl (GoogleSheetsError (''Failed to create content: '' @ attribute_error)),
        unreachable_store [example_sheet_row])"
    using create_content_batch_of_validated_items[OF refl ct, of example_lib "[example_item]"
            "unreachable_store [example_sheet_row]"]
    by (simp add: gl)
  have bd: "body (client (unreachable_store [example_sheet_row])) = [example_sheet_row]"
    by (simp add: unreachable_store_def)
  from gl idx cb bd show ?thesis by simp
qed

section \<open>Properties of the generation workflow\<close>

subsection \<open>Calls of the capabilities are only ever added\<close>

lemma images_calls_prefix:
  "prefix (capability_calls s) (capability_calls (snd (generate_images_for_content e content_items s)))"
proof (induction content_items arbitrary: s)
  case Nil
  then show ?case by simp
next
  case (Cons item content_items)
  show ?case
  proof (cases "ci_prompt item = None")
    case True
    with Cons.IH[of s] show ?thesis
      by (cases "generate_images_for_content e content_items s") simp
  next
    case False
    then obtain pt where pr: "ci_prompt item = Some pt" by auto
    let ?s1 = "s\<lparr>capability_calls := capability_calls s @ [GenerateImage item]\<rparr>"
    have p1: "prefix (capability_calls s) (capability_calls ?s1)" by simp
    show ?thesis
    proof (cases "generate_image_for_content e item")
      case (Inl err)
      have "prefix (capability_calls s)
              (capability_calls (snd (generate_images_for_content e content_items ?s1)))"
        using prefix_order.trans[OF p1 Cons.IH[of ?s1]] .
      with pr Inl show ?thesis
        by (cases "generate_images_for_content e content_items ?s1") (simp add: Let_def)
    next
      case (Inr image_data)
      obtain x item2 repo' where u: "update_image_data (wlib e)
          (item\<lparr>ci_image := Some image_data, ci_generated_at := Some (utcnow_text (wlib e))\<rparr>)
          (img_url image_data) (img_url image_data) (content_repo ?s1) = (x, item2, repo')"
        by (metis prod_cases3)
      have "prefix (capability_calls (?s1\<lparr>content_repo := repo'\<rparr>))
              (capability_calls (snd (generate_images_for_content e content_items (?s1\<lparr>content_repo := repo'\<rparr>))))"
        by (rule Cons.IH)
      then have "prefix (capability_calls s)
              (capability_calls (snd (generate_images_for_content e content_items (?s1\<lparr>content_repo := repo'\<rparr>))))"
        using prefix_order.trans[OF p1] by simp
      with pr Inr u show ?thesis
        by (cases "generate_images_for_content e content_items (?s1\<lparr>content_repo := repo'\<rparr>)")
           (simp add: Let_def)
    qed
  qed
qed

lemma captions_calls_prefix:
  "prefix (capability_calls s) (capability_calls (generate_captions_for_first_items e firsts s))"
proof (induction firsts arbitrary: s)
  case Nil
  then show ?case by simp
next
  case (Cons first_item others)
  let ?s1 = "s\<lparr>capability_calls := capability_calls s @ [GenerateCaption first_item]\<rparr>"
  have p1: "prefix (capability_calls s) (capability_calls ?s1)" by simp
  have step: "prefix (capability_calls s)
      (capability_calls (generate_captions_for_first_items e others (?s1\<lparr>content_repo := r\<rparr>)))"
    for r
  proof -
    have "prefix (capability_calls (?s1\<lparr>content_repo := r\<rparr>))
      (capability_calls (generate_captions_for_first_items e others (?s1\<lparr>content_repo := r\<rparr>)))"
      by (rule Cons.IH)
    then show ?thesis using prefix_order.trans[OF p1] by simp
  qed
  have step0: "prefix (capability_calls s)
      (capability_calls (generate_captions_for_first_items e others ?s1))"
    using prefix_order.trans[OF p1 Cons.IH] .
  show ?case
    using Cons.IH[of s] step step0
    by (auto simp add: Let_def split: sum.splits prod.splits)
qed

lemma generate_posts_calls:
  assumes "1 \<le> n" "n \<le> 10"
  shows "prefix (capability_calls s @ [GenerateContentBatch POST n])
           (capability_calls (snd (generate_posts e loc n s)))"
proof -
  let ?s1 = "s\<lparr>capability_calls := capability_calls s @ [GenerateContentBatch POST n]\<rparr>"
  have rq: "request_generation e POST loc n s = (generate_content_batch e POST loc n, ?s1)"
    using assms by (simp add: request_generation_def)
  show ?thesis
  proof (cases "generate_content_batch e POST loc n")
    case (Inl err)
    with rq show ?thesis by (simp add: generate_posts_def)
  next
    case (Inr content_items)
    obtain res repo' where cb: "create_content_batch (wlib e) content_items (content_repo ?s1)
        = (res, repo')"
      by (cases "create_content_batch (wlib e) content_items (content_repo ?s1)")
    show ?thesis
    proof (cases res)
      case (Inl err)
      with rq Inr cb show ?thesis by (simp add: generate_posts_def)
    next
      case saved: (Inr saved_items)
      let ?s2 = "?s1\<lparr>content_repo := repo'\<rparr>"
      obtain items' s3 where gi: "generate_images_for_content e saved_items ?s2 = (items', s3)"
        by (cases "generate_images_for_content e saved_items ?s2")
      have "prefix (capability_calls ?s2) (capability_calls s3)"
        using images_calls_prefix[of ?s2 e saved_items] gi by simp
      moreover have "prefix (capability_calls s3)
          (capability_calls (generate_captions_for_content e items' s3))"
        by (simp add: generate_captions_for_content_def captions_calls_prefix)
      ultimately have "prefix (capability_calls ?s2)
          (capability_calls (generate_captions_for_content e items' s3))"
        by (rule prefix_order.trans)
      with rq Inr cb saved gi show ?thesis by (simp add: generate_posts_def)
    qed
  qed
qed

lemma generate_stories_calls:
  "prefix (capability_calls s) (capability_calls (snd (generate_stories e loc n s)))"
proof (cases "n < 1 \<or> 10 < n")
  case True
  then show ?thesis by (simp add: generate_stories_def request_generation_def)
next
  case False
  let ?s1 = "s\<lparr>capability_calls := capability_calls s @ [GenerateContentBatch STORY n]\<rparr>"
  have rq: "request_generation e STORY loc n s = (generate_content_batch e STORY loc n, ?s1)"
    using False by (simp add: request_generation_def)
  have p1: "prefix (capability_calls s) (capability_calls ?s1)" by simp
  show ?thesis
  proof (cases "generate_content_batch e STORY loc n")
    case (Inl err)
    with rq show ?thesis by (simp add: generate_stories_def)
  next
    case (Inr content_items)
    let ?approved = "map (\<lambda>item. item\<lparr>ci_approval_status := Plain ''y''\<rparr>) content_items"
    obtain res repo' where cb: "create_content_batch (wlib e) ?approved (content_repo ?s1)
        = (res, repo')"
      by (cases "create_content_batch (wlib e) ?approved (content_repo ?s1)")
    show ?thesis
    proof (cases res)
      case (Inl err)
      with rq Inr cb show ?thesis by (simp add: generate_stories_def)
    next
      case saved: (Inr saved_items)
      let ?s2 = "?s1\<lparr>content_repo := repo'\<rparr>"
      obtain items' s3 where gi: "generate_images_for_content e saved_items ?s2 = (items', s3)"
        by (cases "generate_images_for_content e saved_items ?s2")
      have "prefix (capability_calls ?s2) (capability_calls s3)"
        using images_calls_prefix[of ?s2 e saved_items] gi by simp
      then have "prefix (capability_calls s) (capability_calls s3)"
        using prefix_order.trans[OF p1] by simp
      with rq Inr cb saved gi show ?thesis by (simp add: generate_stories_def)
    qed
  qed
qed

lemma protected_work_generates_posts:
  assumes loc: "(case given_location of Some l \<Rightarrow> Inr l | None \<Rightarrow> get_current_location e) = Inr loc"
    and counts: "get_non_posted_content_counts (wlib e) (content_repo s) = (cnt, r')"
    and few: "posts cnt < max_non_posted_instagram_posts e"
    and n: "1 \<le> post_count" "post_count \<le> 10"
  shows "prefix (capability_calls s @ [GenerateContentBatch POST post_count])
           (capability_calls (snd (protected_work e given_location post_count story_count s)))"
proof -
  let ?s1 = "s\<lparr>notifications := notifications s
                    @ [ProcessingUpdate ''Content Generation'' ''started'']\<rparr>"
  let ?s1r = "?s1\<lparr>content_repo := r'\<rparr>"
  obtain res s2 where gp: "generate_posts e loc post_count ?s1r = (res, s2)"
    by (cases "generate_posts e loc post_count ?s1r")
  have p2: "prefix (capability_calls s @ [GenerateContentBatch POST post_count]) (capability_calls s2)"
    using generate_posts_calls[OF n, of ?s1r e loc] gp by simp
  show ?thesis
  proof (cases res)
    case (Some err)
    with loc counts few gp p2 show ?thesis by (simp add: protected_work_def)
  next
    case None
    obtain res3 s3 where gs: "(if stories cnt < max_non_posted_stories e
                              then generate_stories e loc story_count s2 else (None, s2)) = (res3, s3)"
      by (cases "if stories cnt < max_non_posted_stories e
                              then generate_stories e loc story_count s2 else (None, s2)")
    have "prefix (capability_calls s2) (capability_calls s3)"
      using gs generate_stories_calls[of s2 e loc story_count]
      by (auto split: if_splits)
    with p2 have p3: "prefix (capability_calls s @ [GenerateContentBatch POST post_count]) (capability_calls s3)"
      by (rule prefix_order.trans)
    from loc counts few gp None gs p3 show ?thesis
      by (cases res3) (simp_all add: protected_work_def)
  qed
qed

lemma run_keeps_calls_of_work:
  assumes "\<not> is_process_running e s" "\<not> lock_write_fails e ''yep''"
  shows "capability_calls (work (snd (run_full_content_generation e given_location p q s)))
    = capability_calls (snd (protected_work e given_location p q (work s)))"
proof -
  obtain res w where pw: "protected_work e given_location p q (work s) = (res, w)"
    by (cases "protected_work e given_location p q (work s)")
  show ?thesis
    using assms pw
    by (cases res; cases "lock_write_fails e ''nope''")
       (simp_all add: run_full_content_generation_def set_process_running_def
          workflow_failed_def)
qed

subsection \<open>The run lock\<close>

lemma workflow_releases_lock:
  assumes "\<not> is_process_running e s" "\<not> lock_write_fails e ''yep''"
    and "\<not> lock_write_fails e ''nope''"
  shows "running_lock_file (snd (run_full_content_generation e given_location p q s)) = Some ''nope''"
proof -
  obtain res w where pw: "protected_work e given_location p q (work s) = (res, w)"
    by (cases "protected_work e given_location p q (work s)")
  show ?thesis
    using assms pw
    by (cases res)
       (simp_all add: run_full_content_generation_def set_process_running_def
          workflow_failed_def)
qed

text \<open>
  Claim C6 against the code.  The workflow class resets the flag in a \<^verbatim>\<open>finally\<close>
  clause (lemma above: after a run that took the lock the flag file holds
  \<^verbatim>\<open>nope\<close>, whatever the protected work did).  The script \<^verbatim>\<open>automation.py\<close> has no
  such clause: when \<^verbatim>\<open>generate_posts_and_caption\<close> is left by an exception or by its
  \<^verbatim>\<open>exit()\<close>, the statement that writes \<^verbatim>\<open>nope\<close> is not reached, the flag file
  keeps \<^verbatim>\<open>yep\<close>, and the next start of the script leaves at once without running
  the generation.
\<close>

theorem automation_main_leaves_flag_set:
  "automation_main (Some ''SystemExit'')
       \<lparr>is_running_file = ''nope'', sent = [], generation_runs = 0\<rparr>
     = (Uncaught ''SystemExit'',
        \<lparr>is_running_file = ''yep'', sent = [''Running image and caption generation...''],
         generation_runs = 1\<rparr>)
   \<and> automation_main None
       \<lparr>is_running_file = ''yep'', sent = [''Running image and caption generation...''],
        generation_runs = 1\<rparr>
     = (Exited,
        \<lparr>is_running_file = ''yep'', sent = [''Running image and caption generation...''],
         generation_runs = 1\<rparr>)"
  by (simp add: automation_main_def str_strip_def is_space_def)

text \<open>
  Claim C7: when the flag is set at the start, the workflow returns \<^verbatim>\<open>True\<close> and
  leaves the whole state as it was: no capability is called, no notification is sent, the
  repository and the flag are untouched.  The script \<^verbatim>\<open>automation.py\<close> leaves with
  \<^verbatim>\<open>exit()\<close> in the same situation, before it sends a message or runs the generation.
\<close>

theorem lock_held_is_noop:
  "(is_process_running e s
      \<longrightarrow> run_full_content_generation e given_location post_count story_count s = (True, s))
   \<and> (str_strip (is_running_file t) = ''yep'' \<longrightarrow> automation_main generation t = (Exited, t))"
  by (simp add: run_full_content_generation_def automation_main_def)

theorem lock_held_is_noop_witness:
  "is_process_running example_env (example_state (Some (''Yep'' @ [CHR 0x0A])) (unreachable_store []))
   \<and> run_full_content_generation example_env None 4 2
        (example_state (Some (''Yep'' @ [CHR 0x0A])) (unreachable_store []))
      = (True, example_state (Some (''Yep'' @ [CHR 0x0A])) (unreachable_store []))
   \<and> automation_main None \<lparr>is_running_file = ''yep'', sent = [], generation_runs = 0\<rparr>
      = (Exited, \<lparr>is_running_file = ''yep'', sent = [], generation_runs = 0\<rparr>)"
proof -
  have a: "is_process_running example_env
             (example_state (Some (''Yep'' @ [CHR 0x0A])) (unreachable_store []))"
    by code_simp
  have b: "str_strip (is_running_file \<lparr>is_running_file = ''yep'', sent = [], generation_runs = 0\<rparr>)
           = ''yep''"
    by code_simp
  from lock_held_is_noop[of example_env
         "example_state (Some (''Yep'' @ [CHR 0x0A])) (unreachable_store [])" None 4 2
         "\<lparr>is_running_file = ''yep'', sent = [], generation_runs = 0\<rparr>" None] a b
  show ?thesis by blast
qed

subsection \<open>A store that cannot be read\<close>

text \<open>
  Claim C10: \<^verbatim>\<open>get_non_posted_content_counts\<close> has no exceptional result; when the
  sheet cannot be read (and no valid cache stands in for it) it answers with four zeros,
  the same answer as for a readable sheet without rows.  A run of the workflow that takes
  the lock then finds the number of posts below the threshold, which is at least 1, and
  its first call of a capability is the request for a new batch of posts.
\<close>

theorem failed_read_counts_as_empty_backlog:
  assumes "get_all_records_error (client (content_repo (work s))) = Some err"
    and "\<not> is_cache_valid (wlib e) (content_repo (work s))"
    and "\<not> is_process_running e s"
    and "\<not> lock_write_fails e ''yep''"
    and "(case given_location of Some l \<Rightarrow> Inr l | None \<Rightarrow> get_current_location e) = Inr loc"
    and "0 < max_non_posted_instagram_posts e"
    and "1 \<le> post_count" and "post_count \<le> 10"
  shows "get_non_posted_content_counts (wlib e) (content_repo (work s))
      = (\<lparr>posts = 0, stories = 0, approved_posts = 0, approved_stories = 0\<rparr>,
         content_repo (work s))
    \<and> fst (get_non_posted_content_counts (wlib e) (content_repo (work s)))
      = fst (get_non_posted_content_counts (wlib e)
          ((content_repo (work s))\<lparr>client := (client (content_repo (work s)))
              \<lparr>body := [], get_all_records_error := None\<rparr>\<rparr>))
    \<and> prefix (capability_calls (work s) @ [GenerateContentBatch POST post_count])
        (capability_calls (work (snd
           (run_full_content_generation e given_location post_count story_count s))))"
proof -
  let ?r = "content_repo (work s)"
  have zero: "get_non_posted_content_counts (wlib e) ?r
      = (\<lparr>posts = 0, stories = 0, approved_posts = 0, approved_stories = 0\<rparr>, ?r)"
    using assms(1,2) by (simp add: get_non_posted_content_counts_def get_all_content_read_fails)
  have "\<not> is_cache_valid (wlib e)
          (?r\<lparr>client := (client ?r)\<lparr>body := [], get_all_records_error := None\<rparr>\<rparr>)"
    using assms(2) by (simp add: is_cache_valid_def)
  then have empty: "fst (get_non_posted_content_counts (wlib e)
          (?r\<lparr>client := (client ?r)\<lparr>body := [], get_all_records_error := None\<rparr>\<rparr>))
      = \<lparr>posts = 0, stories = 0, approved_posts = 0, approved_stories = 0\<rparr>"
    by (simp add: get_non_posted_content_counts_def get_all_content_def
          client_get_all_records_def count_non_posted_def)
  let ?s1 = "(work s)\<lparr>notifications := notifications (work s)
                    @ [ProcessingUpdate ''Content Generation'' ''started'']\<rparr>"
  have "prefix (capability_calls (work s) @ [GenerateContentBatch POST post_count])
           (capability_calls (snd (protected_work e given_location post_count story_count (work s))))"
    using protected_work_generates_posts[OF assms(5) zero _ assms(7,8), of story_count] assms(6)
    by simp
  then have calls: "prefix (capability_calls (work s) @ [GenerateContentBatch POST post_count])
        (capability_calls (work (snd
           (run_full_content_generation e given_location post_count story_count s))))"
    using run_keeps_calls_of_work[OF assms(3,4)] by simp
  from zero empty calls show ?thesis by simp
qed

theorem failed_read_counts_as_empty_backlog_witness:
  "fst (get_non_posted_content_counts example_lib
          (unreachable_store [example_sheet_row]))
     = \<lparr>posts = 0, stories = 0, approved_posts = 0, approved_stories = 0\<rparr>
   \<and> prefix [GenerateContentBatch POST 4]
       (capability_calls (work (snd (run_full_content_generation example_env None 4 2
          (example_state (Some ''nope'')
             (unreachable_store [example_sheet_row]))))))"
proof -
  let ?r = "unreachable_store [example_sheet_row]"
  let ?s = "example_state (Some ''nope'') ?r"
  have a: "get_all_records_error (client (content_repo (work ?s))) = Some ''503 Service Unavailable''"
    by (simp add: example_state_def unreachable_store_def)
  have b: "\<not> is_cache_valid (wlib example_env) (content_repo (work ?s))"
    by (simp add: example_state_def unreachable_store_def is_cache_valid_def)
  have c: "\<not> is_process_running example_env ?s"
    by code_simp
  have d: "\<not> lock_write_fails example_env ''yep''"
    by (simp add: example_env_def)
  have f: "(case None of Some l \<Rightarrow> Inr l | None \<Rightarrow> get_current_location example_env)
            = Inr \<lparr>loc_name = ''Paris'', loc_country = Some ''France''\<rparr>"
    by (simp add: example_env_def)
  have g: "0 < max_non_posted_instagram_posts example_env"
    by (simp add: example_env_def)
  have w: "wlib example_env = example_lib" by (simp add: example_env_def)
  have r: "content_repo (work ?s) = ?r" by (simp add: example_state_def)
  have k: "capability_calls (work ?s) = []" by (simp add: example_state_def)
  from failed_read_counts_as_empty_backlog[OF a b c d f g, of 4 2]
  show ?thesis by (simp add: w r k)
qed

end
